theory Spec2Isabelle
  imports Complex_Main
begin

section \<open>Python values, errors and dictionaries\<close>

text \<open>
  The service \<^verbatim>\<open>src/api.py\<close> handles loosely typed data: request parameters,
  MongoDB documents, the geocoder's JSON reply. They are modelled by one datatype of Python
  values. The type parameter \<open>'f\<close> is Python's \<^verbatim>\<open>float\<close>: the model never looks into a
  float, it only tests one against zero (truthiness), multiplies by \<^verbatim>\<open>1000.0\<close> and
  subtracts two clock readings.

  A \<^verbatim>\<open>dict\<close> is an association list in insertion order. \<open>PExc\<close> is an exception
  \<^emph>\<open>object\<close> held as an ordinary value (line 103 returns one); \<open>PDate\<close> is a
  \<^verbatim>\<open>datetime\<close> as the store returns it.
\<close>

datatype 'f pyval =
    PNone
  | PBool bool
  | PInt int
  | PNum 'f
  | PStr string
  | PList "'f pyval list"
  | PDict "(string \<times> 'f pyval) list"
  | PDate int
  | PExc string

type_synonym 'f pydict = "(string \<times> 'f pyval) list"

text \<open>Exceptions that are raised (as opposed to returned) are the left summand of a result.\<close>

datatype error =
    IndexError
  | KeyError
  | TypeError
  | ValueError
  | AttributeError
  | RequestError string
  | StoreError string

text \<open>Sequencing: the first exception raised ends the computation.\<close>

definition ebind :: "error + 'a \<Rightarrow> ('a \<Rightarrow> error + 'b) \<Rightarrow> error + 'b" where
  "ebind r f = (case r of Inl e \<Rightarrow> Inl e | Inr x \<Rightarrow> f x)"

text \<open>Truth value of an object, as \<^verbatim>\<open>if x:\<close> tests it. An exception object defines neither
  \<^verbatim>\<open>__bool__\<close> nor \<^verbatim>\<open>__len__\<close>, so it is true.\<close>

fun truthy :: "('f::zero) pyval \<Rightarrow> bool" where
  "truthy PNone = False"
| "truthy (PBool b) = b"
| "truthy (PInt i) = (i \<noteq> 0)"
| "truthy (PNum x) = (x \<noteq> 0)"
| "truthy (PStr s) = (s \<noteq> [])"
| "truthy (PList xs) = (xs \<noteq> [])"
| "truthy (PDict d) = (d \<noteq> [])"
| "truthy (PDate t) = True"
| "truthy (PExc m) = True"

text \<open>\<^verbatim>\<open>d[k] = v\<close>: an existing key keeps its position and takes the new value, a new
  key goes to the end.\<close>

fun dict_set :: "('k \<times> 'v) list \<Rightarrow> 'k \<Rightarrow> 'v \<Rightarrow> ('k \<times> 'v) list" where
  "dict_set [] k v = [(k, v)]"
| "dict_set ((k', v') # d) k v = (if k' = k then (k, v) # d else (k', v') # dict_set d k v)"

text \<open>\<^verbatim>\<open>x[k]\<close> with a string key and \<^verbatim>\<open>x[0]\<close>.\<close>

fun getitem :: "'f pyval \<Rightarrow> string \<Rightarrow> error + 'f pyval" where
  "getitem (PDict d) k = (case map_of d k of None \<Rightarrow> Inl KeyError | Some v \<Rightarrow> Inr v)"
| "getitem _ k = Inl TypeError"

fun getitem0 :: "'f pyval \<Rightarrow> error + 'f pyval" where
  "getitem0 (PList []) = Inl IndexError"
| "getitem0 (PList (x # xs)) = Inr x"
| "getitem0 (PStr []) = Inl IndexError"
| "getitem0 (PStr (c # cs)) = Inr (PStr [c])"
| "getitem0 (PDict d) = Inl KeyError"
| "getitem0 _ = Inl TypeError"

text \<open>\<^verbatim>\<open>tuple(x)\<close>: the elements of an iterable; a dict yields its keys.\<close>

fun tuple :: "'f pyval \<Rightarrow> error + 'f pyval list" where
  "tuple (PList xs) = Inr xs"
| "tuple (PStr s) = Inr (map (\<lambda>c. PStr [c]) s)"
| "tuple (PDict d) = Inr (map (\<lambda>(k, v). PStr k) d)"
| "tuple _ = Inl TypeError"

text \<open>\<^verbatim>\<open>s.replace(a, b)\<close> for one-character \<open>a\<close> and \<open>b\<close>, and \<^verbatim>\<open>s.split(',')\<close>.\<close>

definition replace :: "char \<Rightarrow> char \<Rightarrow> string \<Rightarrow> string" where
  "replace a b s = map (\<lambda>c. if c = a then b else c) s"

fun split :: "char \<Rightarrow> string \<Rightarrow> string list" where
  "split sep [] = [[]]"
| "split sep (c # cs) =
     (if c = sep then [] # split sep cs
      else (case split sep cs of [] \<Rightarrow> [[c]] | w # ws \<Rightarrow> (c # w) # ws))"

section \<open>The environment of a request\<close>

text \<open>
  What \<^verbatim>\<open>api.py\<close> imports or reads and does not define: the request's query parameters,
  the application's configuration (strings, from the process environment), the built-ins
  \<^verbatim>\<open>int\<close> and \<^verbatim>\<open>float\<close> on strings (\<open>None\<close>: \<^verbatim>\<open>ValueError\<close>), the libraries
  \<^verbatim>\<open>slugify\<close>, \<^verbatim>\<open>json\<close>, \<^verbatim>\<open>arrow\<close> and \<^verbatim>\<open>haversine\<close>, the geocoder reached over HTTP
  (the decoded JSON reply for an address, or the exception of the transport), the MongoDB
  collection (the documents for a filter, a projection and a limit, or the driver's
  exception) and the two readings of the clock.
\<close>

record 'f env =
  args :: "string \<rightharpoonup> string"
  config :: "string \<rightharpoonup> string"
  py_int :: "string \<Rightarrow> int option"
  py_float :: "string \<Rightarrow> 'f option"
  slugify :: "string \<Rightarrow> string"
  dumps :: "'f pyval \<Rightarrow> string"
  loads :: "string \<Rightarrow> error + 'f pyval"
  isoformat :: "'f pyval \<Rightarrow> error + 'f pyval"
  haversine :: "'f pyval list \<Rightarrow> 'f pyval list \<Rightarrow> error + 'f"
  requests_get :: "string \<Rightarrow> error + 'f pyval"
  find :: "'f pydict \<Rightarrow> 'f pydict \<Rightarrow> int \<Rightarrow> error + 'f pydict list"
  time_start :: 'f
  time_end :: 'f

text \<open>
  The state a request changes: the Redis store, a map from a key to its value and the
  seconds it has left to live, and the trace of the calls made to Redis, to the geocoder
  and to MongoDB, in the order they are made.
\<close>

datatype 'f event =
    RedisGet string
  | RedisExpire string int
  | RedisSet string string int
  | GeocoderCall string
  | StoreFind "'f pydict" "'f pydict" int

record 'f world =
  redis :: "string \<rightharpoonup> string \<times> int"
  trace :: "'f event list"

definition emit :: "'f event \<Rightarrow> 'f world \<Rightarrow> 'f world" where
  "emit e w = w\<lparr>trace := trace w @ [e]\<rparr>"

text \<open>\<^verbatim>\<open>redis_store.get(key)\<close>, \<^verbatim>\<open>.expire(key, ttl)\<close> and \<^verbatim>\<open>.set(key, value, ttl)\<close>.\<close>

definition redis_get :: "string \<Rightarrow> 'f world \<Rightarrow> string option \<times> 'f world" where
  "redis_get key w = (map_option fst (redis w key), emit (RedisGet key) w)"

definition redis_expire :: "string \<Rightarrow> int \<Rightarrow> 'f world \<Rightarrow> 'f world" where
  "redis_expire key ttl w =
     emit (RedisExpire key ttl)
       (case redis w key of
          None \<Rightarrow> w
        | Some (v, t) \<Rightarrow> w\<lparr>redis := (redis w)(key \<mapsto> (v, ttl))\<rparr>)"

definition redis_set :: "string \<Rightarrow> string \<Rightarrow> int \<Rightarrow> 'f world \<Rightarrow> 'f world" where
  "redis_set key v ttl w = emit (RedisSet key v ttl) (w\<lparr>redis := (redis w)(key \<mapsto> (v, ttl))\<rparr>)"

section \<open>Limit Enforcer: \<^verbatim>\<open>safe_limit\<close>, \<^verbatim>\<open>safe_distance\<close> (lines 140-147)\<close>

text \<open>\<^verbatim>\<open>int(x)\<close> where \<open>x\<close> is a string or \<^verbatim>\<open>None\<close> (a configuration key that is not set).\<close>

definition int_of :: "'f env \<Rightarrow> string option \<Rightarrow> error + int" where
  "int_of E x =
     (case x of
        None \<Rightarrow> Inl TypeError
      | Some s \<Rightarrow> (case py_int E s of None \<Rightarrow> Inl ValueError | Some i \<Rightarrow> Inr i))"

definition safe_limit :: "'f env \<Rightarrow> string \<Rightarrow> string \<Rightarrow> string \<Rightarrow> error + int" where
  "safe_limit E key default_key query_param =
     (case int_of E (case args E query_param of
                       None \<Rightarrow> config E default_key
                     | Some s \<Rightarrow> Some s) of
        Inl e \<Rightarrow> Inl e
      | Inr limit \<Rightarrow>
          (case int_of E (config E key) of
             Inl e \<Rightarrow> Inl e
           | Inr hard_limit \<Rightarrow> Inr (if limit < hard_limit then limit else hard_limit)))"

definition safe_distance :: "'f env \<Rightarrow> error + int" where
  "safe_distance E = safe_limit E ''DISTANCE_LIMIT'' ''DISTANCE_DEFAULT'' ''maxDistance''"

section \<open>Geocode Cache Service: \<^verbatim>\<open>geocode\<close> (lines 80-103)\<close>

text \<open>Lines 98-99: the first result's location, as \<^verbatim>\<open>[lng, lat]\<close>. Every subscript can
  raise.\<close>

definition raw_location :: "'f pyval \<Rightarrow> error + 'f pyval" where
  "raw_location reply =
     ebind (getitem reply ''results'') (\<lambda>results.
     ebind (getitem0 results) (\<lambda>result.
     ebind (getitem result ''geometry'') (\<lambda>geometry.
     ebind (getitem geometry ''location'') (\<lambda>location.
     ebind (getitem location ''lng'') (\<lambda>lng.
     ebind (getitem location ''lat'') (\<lambda>lat.
     Inr (PList [lng, lat])))))))"

text \<open>
  \<open>geocode E address cache expire_ttl w\<close>. The parameter \<^verbatim>\<open>http_timeout\<close> is not used by
  the source. The \<^verbatim>\<open>except IndexError\<close> of line 102 \<^emph>\<open>returns\<close> the exception it builds:
  that is the result \<open>Inr (PExc ...)\<close>, not \<open>Inl\<close>. Any other exception of the block
  propagates.
\<close>

definition geocode ::
  "'f env \<Rightarrow> string \<Rightarrow> bool \<Rightarrow> int \<Rightarrow> 'f world \<Rightarrow> (error + 'f pyval) \<times> 'f world" where
  "geocode E address cache expire_ttl w =
     (let key = ''address:'' @ slugify E address;
          (cache_value, w1) = (if cache then redis_get key w else (None, w))
      in case cache_value of
           Some bytes \<Rightarrow> (loads E bytes, redis_expire key expire_ttl w1)
         | None \<Rightarrow>
             (let w2 = emit (GeocoderCall address) w1
              in case requests_get E address of
                   Inl e \<Rightarrow> (Inl e, w2)
                 | Inr reply \<Rightarrow>
                     (case raw_location reply of
                        Inl IndexError \<Rightarrow>
                          (Inr (PExc (''Can't get location '' @ address @ ''.'')), w2)
                      | Inl e \<Rightarrow> (Inl e, w2)
                      | Inr loc \<Rightarrow>
                          (Inr loc, if cache then redis_set key (dumps E loc) expire_ttl w2 else w2))))"

section \<open>Distance Calculator: \<^verbatim>\<open>compute_distance\<close> (lines 106-113)\<close>

text \<open>\<^verbatim>\<open>station['distance'] = haversine(tuple(station['loc']['coordinates']), tuple(at)) * 1000.0\<close>.
  The function \<^verbatim>\<open>haversine\<close> is the library's; the two tuples are handed to it in the
  order of the source.\<close>

definition compute_distance ::
  "('f::{zero,minus,times,numeral}) env \<Rightarrow> 'f pydict \<Rightarrow> 'f pyval \<Rightarrow> error + 'f pydict" where
  "compute_distance E station at' =
     ebind (getitem (PDict station) ''loc'') (\<lambda>loc.
     ebind (getitem loc ''coordinates'') (\<lambda>coordinates.
     ebind (tuple coordinates) (\<lambda>p.
     ebind (tuple at') (\<lambda>q.
     ebind (haversine E p q) (\<lambda>km.
     Inr (dict_set station ''distance'' (PNum (km * 1000))))))))"

section \<open>Result Projector (lines 116-137)\<close>

text \<open>A dict comprehension \<^verbatim>\<open>{f(k): v for k, v in d.items()}\<close> stores its entries one after
  the other; \<^verbatim>\<open>.items()\<close> of anything but a dict raises \<^verbatim>\<open>AttributeError\<close>.\<close>

fun unslugify_dict :: "'f pyval \<Rightarrow> error + 'f pydict" where
  "unslugify_dict (PDict dic) =
     Inr (foldl (\<lambda>d (key, v). dict_set d (replace CHR ''-'' CHR ''_'' key) v) [] dic)"
| "unslugify_dict _ = Inl AttributeError"

definition enrich_prices :: "'f pyval \<Rightarrow> error + 'f pyval" where
  "enrich_prices dic =
     ebind (unslugify_dict dic) (\<lambda>prices.
     Inr (PList (map (\<lambda>(k, v). PDict [(''type'', PStr k), (''price'', v)]) prices)))"

text \<open>The values of the \<^verbatim>\<open>mapping\<close> argument: a lambda, or anything else.\<close>

datatype 'f mapval = Lambda "'f pyval \<Rightarrow> error + 'f pyval" | Plain "'f pyval"

definition result_of :: "(string \<times> 'f mapval) list \<Rightarrow> string \<Rightarrow> 'f pyval \<Rightarrow> error + 'f pyval" where
  "result_of mapping key v =
     (case map_of mapping key of
        None \<Rightarrow> Inr v
      | Some (Plain r) \<Rightarrow> Inr r
      | Some (Lambda f) \<Rightarrow> f v)"

text \<open>The comprehension of lines 130-131, over the items still to visit, with the dict built
  so far.\<close>

fun simple_station_items ::
  "string list \<Rightarrow> (string \<times> 'f mapval) list \<Rightarrow> 'f pydict \<Rightarrow> 'f pydict \<Rightarrow> error + 'f pydict" where
  "simple_station_items include_keys mapping [] acc = Inr acc"
| "simple_station_items include_keys mapping ((key, v) # items) acc =
     (if CHR ''.'' \<in> set key \<or> key \<in> set include_keys
      then ebind (result_of mapping key v) (\<lambda>r.
             simple_station_items include_keys mapping items (dict_set acc key r))
      else simple_station_items include_keys mapping items acc)"

text \<open>\<^verbatim>\<open>included_keys=None\<close> and \<^verbatim>\<open>mapping=None\<close> stand for the empty list and the empty
  dict.\<close>

definition simple_station ::
  "'f pydict \<Rightarrow> string list \<Rightarrow> (string \<times> 'f mapval) list \<Rightarrow> error + 'f pydict" where
  "simple_station station included_keys mapping =
     simple_station_items included_keys mapping station []"

section \<open>Station Query Service: \<^verbatim>\<open>list_stations\<close> (lines 34-77)\<close>

text \<open>Lines 18-24: the configuration read from the process environment, with its defaults.\<close>

definition getenv_or :: "(string \<rightharpoonup> string) \<Rightarrow> string \<Rightarrow> string \<Rightarrow> string" where
  "getenv_or getenv name d = (case getenv name of None \<Rightarrow> d | Some v \<Rightarrow> v)"

definition app_config :: "(string \<rightharpoonup> string) \<Rightarrow> (string \<rightharpoonup> string)" where
  "app_config getenv =
     [''MONGO_URI'' \<mapsto> getenv_or getenv ''MONGO_URI''
                        (getenv_or getenv ''MONGO_URL'' ''mongodb://localhost:27017/bm''),
      ''REDIS_URL'' \<mapsto> getenv_or getenv ''REDIS_URL'' ''redis://@localhost:6379/1'',
      ''LIST_LIMIT'' \<mapsto> getenv_or getenv ''LIST_LIMIT'' ''50'',
      ''LIST_DEFAULT_COUNT'' \<mapsto> getenv_or getenv ''LIST_DEFAULT_COUNT'' ''10'',
      ''GOOGLE_GEOCODER_TIMEOUT'' \<mapsto> getenv_or getenv ''GOOGLE_GEOCODER_TIMEOUT'' ''0.10'',
      ''DISTANCE_DEFAULT'' \<mapsto> getenv_or getenv ''DISTANCE_DEFAULT'' ''10000'',
      ''DISTANCE_LIMIT'' \<mapsto> getenv_or getenv ''DISTANCE_LIMIT'' ''50000'']"

record 'f response =
  status :: string
  stations :: "'f pydict list"
  executed_in :: 'f

text \<open>A list comprehension whose body can raise: the first exception ends it.\<close>

fun map_err :: "('a \<Rightarrow> error + 'b) \<Rightarrow> 'a list \<Rightarrow> error + 'b list" where
  "map_err f [] = Inr []"
| "map_err f (x # xs) = ebind (f x) (\<lambda>y. ebind (map_err f xs) (\<lambda>ys. Inr (y # ys)))"

text \<open>Lines 37-42: the fields asked of the store.\<close>

definition station_keys :: "'f env \<Rightarrow> string list" where
  "station_keys E =
     (let keys = [''key'', ''loc'', ''address'', ''updated_at'', ''prices'', ''scraped_url'']
      in case args E ''prices'' of
           None \<Rightarrow> keys
         | Some prices \<Rightarrow>
             if prices = [] then keys
             else remove1 ''prices''
                    (keys @ map (\<lambda>p. ''prices.'' @ replace CHR ''_'' CHR ''-'' p)
                                (split CHR '','' prices)))"

text \<open>\<^verbatim>\<open>{key: 1 for key in keys}\<close>, the projection of line 67.\<close>

definition projection :: "string list \<Rightarrow> 'f pydict" where
  "projection keys = foldl (\<lambda>d key. dict_set d key (PInt 1)) [] keys"

text \<open>The source's variable \<^verbatim>\<open>at\<close> is written \<open>at'\<close> throughout, \<open>at\<close> being a constant of
  the logic.\<close>

text \<open>Lines 48-50. The test \<^verbatim>\<open>at is []\<close> compares the identity of the list with that of a
  new list and is false for every list, so \<^verbatim>\<open>at\<close> stays the list of floats, empty or not.\<close>

definition parse_at :: "'f env \<Rightarrow> error + 'f pyval" where
  "parse_at E =
     (let raw_at = (case args E ''at'' of None \<Rightarrow> [] | Some s \<Rightarrow> s)
      in ebind (map_err (\<lambda>n. case py_float E n of None \<Rightarrow> Inl ValueError | Some x \<Rightarrow> Inr (PNum x))
                  (filter (\<lambda>n. n \<noteq> []) (split CHR '','' raw_at)))
           (\<lambda>at'. Inr (PList at')))"

text \<open>Lines 48-54: the reference point. \<^verbatim>\<open>geocode(near)\<close> runs with the defaults
  \<^verbatim>\<open>cache=True\<close> and \<^verbatim>\<open>expire_ttl=86400\<close>.\<close>

definition reference_point ::
  "'f env \<Rightarrow> 'f world \<Rightarrow> (error + 'f pyval) \<times> 'f world" where
  "reference_point E w =
     (case parse_at E of
        Inl e \<Rightarrow> (Inl e, w)
      | Inr at' \<Rightarrow>
          (case args E ''near'' of
             None \<Rightarrow> (Inr at', w)
           | Some near \<Rightarrow> if near = [] then (Inr at', w) else geocode E near True 86400 w))"

text \<open>Lines 45 and 57-59: the filter.\<close>

definition near_clause :: "'f pyval \<Rightarrow> int \<Rightarrow> 'f pyval" where
  "near_clause at' d =
     PDict [(''$near'',
       PDict [(''$geometry'', PDict [(''type'', PStr ''Point''), (''coordinates'', at')]),
              (''$maxDistance'', PInt d)])]"

definition build_where :: "('f::{zero,minus,times,numeral}) env \<Rightarrow> 'f pyval \<Rightarrow> error + 'f pydict" where
  "build_where E at' =
     (let where = [(''company'', PStr ''petrol'')]
      in if truthy at'
         then ebind (safe_distance E) (\<lambda>d. Inr (dict_set where ''loc'' (near_clause at' d)))
         else Inr where)"

text \<open>The \<^verbatim>\<open>mapping\<close> of lines 63-66.\<close>

definition transforms :: "'f env \<Rightarrow> (string \<times> 'f mapval) list" where
  "transforms E = [(''prices'', Lambda enrich_prices), (''updated_at'', Lambda (isoformat E))]"

text \<open>
  The whole handler. \<^verbatim>\<open>find\<close> only builds a cursor, so \<^verbatim>\<open>safe_limit()\<close> is evaluated (and
  can raise) before the store is queried; the query runs when the comprehension starts to
  iterate.
\<close>

definition list_stations ::
  "('f::{zero,minus,times,numeral}) env \<Rightarrow> 'f world \<Rightarrow> (error + 'f response) \<times> 'f world" where
  "list_stations E w =
     (let keys = station_keys E
      in case reference_point E w of
           (Inl e, w1) \<Rightarrow> (Inl e, w1)
         | (Inr at', w1) \<Rightarrow>
             (case build_where E at' of
                Inl e \<Rightarrow> (Inl e, w1)
              | Inr where \<Rightarrow>
                  (let included_keys = keys @ [''prices'', ''distance'']
                   in case safe_limit E ''LIST_LIMIT'' ''LIST_DEFAULT_COUNT'' ''limit'' of
                        Inl e \<Rightarrow> (Inl e, w1)
                      | Inr n \<Rightarrow>
                          (ebind (find E where (projection keys) n) (\<lambda>docs.
                           ebind (map_err (\<lambda>station.
                                    simple_station station included_keys (transforms E)) docs)
                             (\<lambda>simple.
                           ebind (if truthy at'
                                  then map_err (\<lambda>station. compute_distance E station at') simple
                                  else Inr simple) (\<lambda>result.
                           Inr \<lparr>status = ''ok'', stations = result,
                                executed_in = time_end E - time_start E\<rparr>))),
                           emit (StoreFind where (projection keys) n) w1))))"

section \<open>A sample deployment\<close>

text \<open>
  A concrete environment on which the theorems below are exercised: the default
  configuration, floats that are whole numbers (type \<open>int\<close>), decimal \<^verbatim>\<open>int\<close> and
  \<^verbatim>\<open>float\<close> parsers, a geocoder that knows one address, and a store holding one station.
\<close>

definition digit :: "char \<Rightarrow> nat option" where
  "digit c =
     map_of [(CHR ''0'', 0), (CHR ''1'', 1), (CHR ''2'', 2), (CHR ''3'', 3), (CHR ''4'', 4),
             (CHR ''5'', 5), (CHR ''6'', 6), (CHR ''7'', 7), (CHR ''8'', 8), (CHR ''9'', 9)] c"

fun dec_nat :: "string \<Rightarrow> nat \<Rightarrow> nat option" where
  "dec_nat [] acc = Some acc"
| "dec_nat (c # cs) acc = (case digit c of None \<Rightarrow> None | Some d \<Rightarrow> dec_nat cs (10 * acc + d))"

definition dec_int :: "string \<Rightarrow> int option" where
  "dec_int s =
     (case s of
        [] \<Rightarrow> None
      | c # cs \<Rightarrow>
          if c = CHR ''-'' then (if cs = [] then None else map_option (\<lambda>n. - int n) (dec_nat cs 0))
          else map_option int (dec_nat s 0))"

definition sample_station :: "int pydict" where
  "sample_station =
     [(''_id'', PInt 1),
      (''key'', PStr ''petrol-ljubljana-1''),
      (''loc'', PDict [(''type'', PStr ''Point''), (''coordinates'', PList [PNum 14, PNum 46])]),
      (''address'', PStr ''Trzaska 1''),
      (''updated_at'', PDate 0),
      (''prices'', PDict [(''diesel'', PNum 1), (''super-95'', PNum 2)]),
      (''scraped_url'', PStr ''http://example.org/1'')]"

definition sample_reply :: "string \<Rightarrow> int pyval" where
  "sample_reply address =
     (if address = ''ljubljana''
      then PDict [(''results'',
             PList [PDict [(''geometry'',
               PDict [(''location'', PDict [(''lat'', PNum 46), (''lng'', PNum 14)])])]]),
             (''status'', PStr ''OK'')]
      else PDict [(''results'', PList []), (''status'', PStr ''ZERO_RESULTS'')])"

definition sample_env :: "int env" where
  "sample_env =
     \<lparr>args = Map.empty,
      config = app_config Map.empty,
      py_int = dec_int,
      py_float = dec_int,
      slugify = (\<lambda>address. address),
      dumps = (\<lambda>v. if v = PList [PNum 14, PNum 46] then ''[14, 46]'' else ''null''),
      loads = (\<lambda>s. if s = ''[14, 46]'' then Inr (PList [PNum 14, PNum 46]) else Inr PNone),
      isoformat = (\<lambda>v. case v of PDate t \<Rightarrow> Inr (PStr ''1970-01-01T00:00:00+00:00'')
                           | _ \<Rightarrow> Inl TypeError),
      haversine = (\<lambda>p q. if p = q then Inr 0 else Inr 1),
      requests_get = (\<lambda>address. Inr (sample_reply address)),
      find = (\<lambda>filter fields n. Inr [sample_station]),
      time_start = 0,
      time_end = 1\<rparr>"

text \<open>The state before the first request: an empty cache and no call made.\<close>

definition world0 :: "int world" where
  "world0 = \<lparr>redis = Map.empty, trace = []\<rparr>"

text \<open>The response record of the sample station: no \<^verbatim>\<open>_id\<close>, the date rendered, the prices
  as an array.\<close>

definition sample_simple :: "int pydict" where
  "sample_simple =
     [(''key'', PStr ''petrol-ljubljana-1''),
      (''loc'', PDict [(''type'', PStr ''Point''), (''coordinates'', PList [PNum 14, PNum 46])]),
      (''address'', PStr ''Trzaska 1''),
      (''updated_at'', PStr ''1970-01-01T00:00:00+00:00''),
      (''prices'', PList [PDict [(''type'', PStr ''diesel''), (''price'', PNum 1)],
                          PDict [(''type'', PStr ''super_95''), (''price'', PNum 2)]]),
      (''scraped_url'', PStr ''http://example.org/1'')]"

text \<open>The sample deployment serving a request with the given query parameters.\<close>

definition with_args :: "(string \<times> string) list \<Rightarrow> int env" where
  "with_args kvs = sample_env\<lparr>args := map_of kvs\<rparr>"

section \<open>The \<^verbatim>\<open>haversine\<close> package\<close>

text \<open>
  Modelled from the spec: the great-circle (haversine) formula on a spherical Earth, which
  yields kilometres. The function itself is the package \<^verbatim>\<open>haversine\<close>, imported on line 14
  and not part of the source. Floats are read as real numbers; angles are in degrees; the
  radius is the package's mean Earth radius, 6371.0088 km.
\<close>

definition radians :: "real \<Rightarrow> real" where
  "radians x = x * pi / 180"

definition great_circle_km :: "real \<Rightarrow> real \<Rightarrow> real \<Rightarrow> real \<Rightarrow> real" where
  "great_circle_km lat1 lng1 lat2 lng2 =
     2 * 6371.0088 *
       arcsin (sqrt ((sin ((radians lat2 - radians lat1) / 2)) ^ 2
                     + cos (radians lat1) * cos (radians lat2)
                       * (sin ((radians lng2 - radians lng1) / 2)) ^ 2))"

text \<open>The distance the specification asks for, in metres, between two points given as
  \<^verbatim>\<open>[longitude, latitude]\<close>.\<close>

definition distance_meters :: "real \<times> real \<Rightarrow> real \<times> real \<Rightarrow> real" where
  "distance_meters a b = great_circle_km (snd a) (fst a) (snd b) (fst b) * 1000"

text \<open>
  Modelled from the spec: the library call \<^verbatim>\<open>haversine(point1, point2)\<close>. The package
  documents each point as a tuple \<^verbatim>\<open>(latitude, longitude)\<close> in decimal degrees and unpacks
  it so (\<^verbatim>\<open>lat1, lng1 = point1\<close>): a tuple of another length raises \<^verbatim>\<open>ValueError\<close>, a
  component that is not a number raises \<^verbatim>\<open>TypeError\<close>.
\<close>

fun number :: "real pyval \<Rightarrow> real option" where
  "number (PNum x) = Some x"
| "number (PInt i) = Some (of_int i)"
| "number _ = None"

fun lib_haversine :: "real pyval list \<Rightarrow> real pyval list \<Rightarrow> error + real" where
  "lib_haversine [a1, b1] [a2, b2] =
     (case (number a1, number b1, number a2, number b2) of
        (Some lat1, Some lng1, Some lat2, Some lng2) \<Rightarrow> Inr (great_circle_km lat1 lng1 lat2 lng2)
      | _ \<Rightarrow> Inl TypeError)"
| "lib_haversine _ _ = Inl ValueError"

text \<open>An environment with real floats whose \<open>haversine\<close> is the package's.\<close>

definition geo_env :: "real env" where
  "geo_env =
     \<lparr>args = Map.empty,
      config = app_config Map.empty,
      py_int = dec_int,
      py_float = (\<lambda>s. map_option of_int (dec_int s)),
      slugify = (\<lambda>address. address),
      dumps = (\<lambda>v. ''null''),
      loads = (\<lambda>s. Inr PNone),
      isoformat = (\<lambda>v. Inr v),
      haversine = lib_haversine,
      requests_get = (\<lambda>address. Inr (PDict [(''results'', PList [])])),
      find = (\<lambda>filter fields n. Inr []),
      time_start = 0,
      time_end = 0\<rparr>"

section \<open>Basic facts\<close>

lemma ebind_Inl [simp]: "ebind (Inl e) f = Inl e"
  by (simp add: ebind_def)

lemma ebind_Inr [simp]: "ebind (Inr x) f = f x"
  by (simp add: ebind_def)

lemma ebind_Inr_iff: "ebind r f = Inr y \<longleftrightarrow> (\<exists>x. r = Inr x \<and> f x = Inr y)"
  by (cases r) auto

lemma map_err_Inr: "map_err f xs = Inr ys \<Longrightarrow> list_all2 (\<lambda>x y. f x = Inr y) xs ys"
  by (induction xs arbitrary: ys) (auto simp: ebind_Inr_iff)

lemma map_err_set:
  assumes "map_err f xs = Inr ys" and "y \<in> set ys"
  shows "\<exists>x \<in> set xs. f x = Inr y"
  using assms by (induction xs arbitrary: ys) (auto simp: ebind_Inr_iff)

lemma map_of_dict_set: "map_of (dict_set d k v) = (map_of d)(k \<mapsto> v)"
  by (induction d) (auto simp: fun_eq_iff)

lemma keys_dict_set: "fst ` set (dict_set d k v) = insert k (fst ` set d)"
proof (induction d)
  case Nil
  show ?case by simp
next
  case (Cons p d)
  obtain k' v' where p: "p = (k', v')" by (cases p)
  show ?case
  proof (cases "k' = k")
    case True
    with p show ?thesis by simp
  next
    case False
    with p Cons.IH show ?thesis by (simp add: insert_commute)
  qed
qed

lemma distinct_dict_set: "distinct (map fst d) \<Longrightarrow> distinct (map fst (dict_set d k v))"
proof (induction d)
  case Nil
  show ?case by simp
next
  case (Cons p d)
  obtain k' v' where p: "p = (k', v')" by (cases p)
  show ?case
  proof (cases "k' = k")
    case True
    with p Cons.prems show ?thesis by simp
  next
    case False
    with p Cons show ?thesis by (simp add: keys_dict_set)
  qed
qed

lemma dict_set_fresh: "k \<notin> fst ` set d \<Longrightarrow> dict_set d k v = d @ [(k, v)]"
  by (induction d) auto

lemma distinct_count_list:
  "distinct xs \<Longrightarrow> count_list xs x = (if x \<in> set xs then 1 else 0)"
  by (induction xs) auto

lemma trace_emit [simp]: "trace (emit e w) = trace w @ [e]"
  by (simp add: emit_def)

lemma redis_emit [simp]: "redis (emit e w) = redis w"
  by (simp add: emit_def)

lemma world0_fields [simp]: "trace world0 = []" "redis world0 = Map.empty"
  by (simp_all add: world0_def)

section \<open>The sample deployment, evaluated\<close>

lemma sample_config [simp]:
  "config sample_env ''LIST_LIMIT'' = Some ''50''"
  "config sample_env ''LIST_DEFAULT_COUNT'' = Some ''10''"
  "config sample_env ''DISTANCE_LIMIT'' = Some ''50000''"
  "config sample_env ''DISTANCE_DEFAULT'' = Some ''10000''"
  by (simp_all add: sample_env_def app_config_def getenv_or_def)

lemma sample_decimals [simp]:
  "dec_int ''50'' = Some 50" "dec_int ''10'' = Some 10" "dec_int ''50000'' = Some 50000"
  "dec_int ''10000'' = Some 10000" "dec_int ''70'' = Some 70" "dec_int ''100'' = Some 100"
  "dec_int ''-3'' = Some (- 3)" "dec_int ''0'' = Some 0" "dec_int ''14'' = Some 14"
  "dec_int ''46'' = Some 46" "dec_int ''abc'' = None"
  by (simp_all add: dec_int_def digit_def)

lemma sample_fields [simp]:
  "py_int sample_env = dec_int" "py_float sample_env = dec_int" "args sample_env = Map.empty"
  "slugify sample_env = (\<lambda>address. address)"
  "requests_get sample_env = (\<lambda>address. Inr (sample_reply address))"
  "find sample_env = (\<lambda>filter fields n. Inr [sample_station])"
  "time_start sample_env = 0" "time_end sample_env = 1"
  by (simp_all add: sample_env_def)

lemma with_args_fields [simp]:
  "args (with_args kvs) = map_of kvs"
  "config (with_args kvs) = config sample_env"
  "py_int (with_args kvs) = dec_int"
  "py_float (with_args kvs) = dec_int"
  "slugify (with_args kvs) = (\<lambda>address. address)"
  "requests_get (with_args kvs) = (\<lambda>address. Inr (sample_reply address))"
  "find (with_args kvs) = (\<lambda>filter fields n. Inr [sample_station])"
  "time_start (with_args kvs) = 0" "time_end (with_args kvs) = 1"
  "transforms (with_args kvs) = transforms sample_env"
  by (simp_all add: with_args_def transforms_def)

lemma with_args_limits:
  "map_of kvs ''limit'' = None \<Longrightarrow>
     safe_limit (with_args kvs) ''LIST_LIMIT'' ''LIST_DEFAULT_COUNT'' ''limit'' = Inr 10"
  by (simp add: safe_limit_def int_of_def)

lemma with_args_keys:
  "map_of kvs ''prices'' = None \<Longrightarrow>
     station_keys (with_args kvs)
       = [''key'', ''loc'', ''address'', ''updated_at'', ''prices'', ''scraped_url'']"
  by (simp add: station_keys_def)

lemma sample_station_keys: "station_keys sample_env = [''key'', ''loc'', ''address'', ''updated_at'', ''prices'', ''scraped_url'']"
  by (simp add: station_keys_def)

lemma sample_transforms:
  "result_of (transforms sample_env) ''prices'' v = enrich_prices v"
  "result_of (transforms sample_env) ''updated_at'' (PDate t) = Inr (PStr ''1970-01-01T00:00:00+00:00'')"
  "result_of (transforms sample_env) ''key'' v = Inr v"
  "result_of (transforms sample_env) ''loc'' v = Inr v"
  "result_of (transforms sample_env) ''address'' v = Inr v"
  "result_of (transforms sample_env) ''scraped_url'' v = Inr v"
  by (simp_all add: result_of_def transforms_def sample_env_def)

lemma sample_enrich:
  "enrich_prices (PDict [(''diesel'', PNum 1), (''super-95'', PNum 2)] :: int pyval)
     = Inr (PList [PDict [(''type'', PStr ''diesel''), (''price'', PNum 1)],
                   PDict [(''type'', PStr ''super_95''), (''price'', PNum 2)]])"
  by (simp add: enrich_prices_def replace_def)

lemma sample_simple_station:
  "simple_station sample_station
     [''key'', ''loc'', ''address'', ''updated_at'', ''prices'', ''scraped_url'', ''prices'', ''distance'']
     (transforms sample_env) = Inr sample_simple"
  by (simp add: simple_station_def sample_station_def sample_simple_def sample_transforms sample_enrich)

lemma sample_projection:
  "(projection [''key'', ''loc'', ''address'', ''updated_at'', ''prices'', ''scraped_url''] :: int pydict)
     = [(''key'', PInt 1), (''loc'', PInt 1), (''address'', PInt 1), (''updated_at'', PInt 1),
        (''prices'', PInt 1), (''scraped_url'', PInt 1)]"
  by (simp add: projection_def)

lemma sample_split [simp]: "split CHR '','' ''14,46'' = [''14'', ''46'']"
  by simp

lemma sample_reference_point:
  "reference_point (with_args [(''limit'', ''-3''), (''maxDistance'', ''0''), (''at'', ''14,46'')]) world0
     = (Inr (PList [PNum 14, PNum 46]), world0)"
  by (simp add: reference_point_def parse_at_def)

lemma sample_json [simp]:
  "dumps (with_args kvs) (PList [PNum 14, PNum 46]) = ''[14, 46]''"
  "loads (with_args kvs) ''[14, 46]'' = Inr (PList [PNum 14, PNum 46])"
  by (simp_all add: with_args_def sample_env_def)

lemma sample_raw_location:
  "raw_location (sample_reply ''ljubljana'') = Inr (PList [PNum 14, PNum 46])"
  by (simp add: raw_location_def sample_reply_def)

lemma sample_raw_location_unknown:
  "raw_location (sample_reply ''nowhere'') = Inl IndexError"
  by (simp add: raw_location_def sample_reply_def)

lemma sample_prices_split: "split CHR '','' ''diesel,super_95'' = [''diesel'', ''super_95'']"
  by simp

lemma sample_prices_keys:
  "station_keys (with_args [(''prices'', ''diesel,super_95'')])
     = [''key'', ''loc'', ''address'', ''updated_at'', ''scraped_url'',
        ''prices.diesel'', ''prices.super-95'']"
  by (simp add: station_keys_def replace_def)

lemma sample_prices_projection:
  "(projection [''key'', ''loc'', ''address'', ''updated_at'', ''scraped_url'',
        ''prices.diesel'', ''prices.super-95''] :: int pydict)
     = [(''key'', PInt 1), (''loc'', PInt 1), (''address'', PInt 1), (''updated_at'', PInt 1),
        (''scraped_url'', PInt 1), (''prices.diesel'', PInt 1), (''prices.super-95'', PInt 1)]"
  by (simp add: projection_def)

lemma sample_prices_simple:
  "simple_station sample_station
     [''key'', ''loc'', ''address'', ''updated_at'', ''scraped_url'',
      ''prices.diesel'', ''prices.super-95'', ''prices'', ''distance'']
     (transforms sample_env) = Inr sample_simple"
  by (simp add: simple_station_def sample_station_def sample_simple_def sample_transforms sample_enrich)

section \<open>Limit Enforcer: the clamp\<close>

lemma int_of_Some: "int_of E (Some s) = Inr i \<longleftrightarrow> py_int E s = Some i"
  by (simp add: int_of_def split: option.splits)

lemma safe_limit_supplied:
  assumes "args E q = Some s" and "py_int E s = Some L"
    and "int_of E (config E key) = Inr hard_limit"
  shows "safe_limit E key dk q = Inr (min L hard_limit)"
  using assms by (simp add: safe_limit_def int_of_def min_def)

lemma safe_limit_absent:
  assumes "args E q = None" and "int_of E (config E dk) = Inr d"
    and "int_of E (config E key) = Inr hard_limit"
  shows "safe_limit E key dk q = Inr (min d hard_limit)"
  using assms by (simp add: safe_limit_def min_def)

lemma safe_limit_le:
  assumes "safe_limit E key dk q = Inr r" and "int_of E (config E key) = Inr hard_limit"
  shows "r \<le> hard_limit"
  using assms by (auto simp: safe_limit_def split: sum.splits if_splits)

text \<open>
  Claim C5, as amended. \<open>safe_limit\<close> (and \<open>safe_distance\<close>, which is \<open>safe_limit\<close> on the
  distance keys) returns the smaller of a value and the ceiling, where the value is the
  caller's when the parameter is supplied and the configured default otherwise. So without
  a parameter the result is the default exactly when the default does not exceed the
  ceiling; a supplied value that is not a number raises \<^verbatim>\<open>ValueError\<close>; and every result
  is at most the ceiling.
\<close>

theorem safe_limit_clamp:
  assumes "int_of E (config E key) = Inr hard_limit"
  shows "(args E q = None \<and> int_of E (config E dk) = Inr d \<longrightarrow>
            safe_limit E key dk q = Inr (min d hard_limit))
       \<and> (args E q = None \<and> int_of E (config E dk) = Inr d \<and> d \<le> hard_limit \<longrightarrow>
            safe_limit E key dk q = Inr d)
       \<and> (args E q = Some s \<and> py_int E s = Some L \<longrightarrow>
            safe_limit E key dk q = Inr (min L hard_limit))
       \<and> (args E q = Some s \<and> py_int E s = None \<longrightarrow> safe_limit E key dk q = Inl ValueError)
       \<and> (\<forall>r. safe_limit E key dk q = Inr r \<longrightarrow> r \<le> hard_limit)
       \<and> safe_distance E = safe_limit E ''DISTANCE_LIMIT'' ''DISTANCE_DEFAULT'' ''maxDistance''"
proof (intro conjI impI allI)
  assume "args E q = None \<and> int_of E (config E dk) = Inr d"
  then show "safe_limit E key dk q = Inr (min d hard_limit)"
    using assms by (simp add: safe_limit_absent)
next
  assume "args E q = None \<and> int_of E (config E dk) = Inr d \<and> d \<le> hard_limit"
  then show "safe_limit E key dk q = Inr d"
    using assms by (simp add: safe_limit_absent)
next
  assume "args E q = Some s \<and> py_int E s = Some L"
  then show "safe_limit E key dk q = Inr (min L hard_limit)"
    using assms by (simp add: safe_limit_supplied)
next
  assume "args E q = Some s \<and> py_int E s = None"
  then show "safe_limit E key dk q = Inl ValueError"
    by (simp add: safe_limit_def int_of_def)
next
  fix r assume "safe_limit E key dk q = Inr r"
  then show "r \<le> hard_limit" using assms by (rule safe_limit_le)
next
  show "safe_distance E = safe_limit E ''DISTANCE_LIMIT'' ''DISTANCE_DEFAULT'' ''maxDistance''"
    by (simp add: safe_distance_def)
qed

text \<open>
  Claim C5 on the default configuration: without \<^verbatim>\<open>limit\<close> the result is the default 10,
  \<^verbatim>\<open>limit=70\<close> gives the ceiling 50, and \<^verbatim>\<open>limit=abc\<close> raises.
\<close>

theorem safe_limit_clamp_witness:
  "int_of sample_env (config sample_env ''LIST_LIMIT'') = Inr 50
   \<and> safe_limit sample_env ''LIST_LIMIT'' ''LIST_DEFAULT_COUNT'' ''limit'' = Inr 10
   \<and> safe_limit (sample_env\<lparr>args := [''limit'' \<mapsto> ''70'']\<rparr>)
        ''LIST_LIMIT'' ''LIST_DEFAULT_COUNT'' ''limit'' = Inr 50
   \<and> safe_limit (sample_env\<lparr>args := [''limit'' \<mapsto> ''abc'']\<rparr>)
        ''LIST_LIMIT'' ''LIST_DEFAULT_COUNT'' ''limit'' = Inl ValueError"
proof -
  have c: "int_of sample_env (config sample_env ''LIST_LIMIT'') = Inr 50"
    by (simp add: int_of_def)
  have c70: "int_of (sample_env\<lparr>args := [''limit'' \<mapsto> ''70'']\<rparr>)
               (config (sample_env\<lparr>args := [''limit'' \<mapsto> ''70'']\<rparr>) ''LIST_LIMIT'') = Inr 50"
    by (simp add: int_of_def)
  have cabc: "int_of (sample_env\<lparr>args := [''limit'' \<mapsto> ''abc'']\<rparr>)
               (config (sample_env\<lparr>args := [''limit'' \<mapsto> ''abc'']\<rparr>) ''LIST_LIMIT'') = Inr 50"
    by (simp add: int_of_def)
  show ?thesis
    using c
      safe_limit_clamp [OF c, of "''limit''" "''LIST_DEFAULT_COUNT''" 10]
      safe_limit_clamp [OF c70, of "''limit''" "''LIST_DEFAULT_COUNT''" 0 "''70''" 70]
      safe_limit_clamp [OF cabc, of "''limit''" "''LIST_DEFAULT_COUNT''" 0 "''abc''" 0]
    by (simp add: int_of_def)
qed

text \<open>
  Claim C5 as the specification states it does not hold: with \<^verbatim>\<open>LIST_DEFAULT_COUNT=100\<close> in
  the process environment and the default ceiling 50, a request without \<^verbatim>\<open>limit\<close> gets 50,
  not the configured default 100.
\<close>

theorem safe_limit_default_counterexample:
  "args (sample_env\<lparr>config := app_config [''LIST_DEFAULT_COUNT'' \<mapsto> ''100'']\<rparr>) ''limit'' = None
   \<and> int_of (sample_env\<lparr>config := app_config [''LIST_DEFAULT_COUNT'' \<mapsto> ''100'']\<rparr>)
        (config (sample_env\<lparr>config := app_config [''LIST_DEFAULT_COUNT'' \<mapsto> ''100'']\<rparr>)
           ''LIST_DEFAULT_COUNT'') = Inr 100
   \<and> safe_limit (sample_env\<lparr>config := app_config [''LIST_DEFAULT_COUNT'' \<mapsto> ''100'']\<rparr>)
        ''LIST_LIMIT'' ''LIST_DEFAULT_COUNT'' ''limit'' = Inr 50"
  by (simp add: safe_limit_def int_of_def app_config_def getenv_or_def)

section \<open>Geocode Cache Service: cache-aside\<close>

lemma raw_location_pair:
  assumes "raw_location reply = Inr loc"
  shows "\<exists>lng lat. loc = PList [lng, lat]"
  using assms by (auto simp: raw_location_def ebind_Inr_iff)

lemma geocode_miss:
  assumes "redis w (''address:'' @ slugify E address) = None"
    and "requests_get E address = Inr reply" and "raw_location reply = Inr loc"
  shows "geocode E address True ttl w =
           (Inr loc,
            redis_set (''address:'' @ slugify E address) (dumps E loc) ttl
              (emit (GeocoderCall address)
                 (emit (RedisGet (''address:'' @ slugify E address)) w)))"
  using assms by (simp add: geocode_def Let_def redis_get_def)

lemma geocode_hit:
  assumes "redis w (''address:'' @ slugify E address) = Some (bytes, t)"
  shows "geocode E address True ttl w =
           (loads E bytes,
            redis_expire (''address:'' @ slugify E address) ttl
              (emit (RedisGet (''address:'' @ slugify E address)) w))"
  using assms by (simp add: geocode_def Let_def redis_get_def)

lemma geocode_trace:
  "\<exists>evs. trace (snd (geocode E a c ttl w)) = trace w @ evs \<and> (\<forall>wh p n. StoreFind wh p n \<notin> set evs)"
proof (cases "c \<and> redis w (''address:'' @ slugify E a) \<noteq> None")
  case True
  then show ?thesis
    by (auto simp: geocode_def Let_def redis_get_def redis_expire_def split: option.splits)
next
  case False
  then have cv: "(if c then redis_get (''address:'' @ slugify E a) w else (None, w))
          = (None, if c then emit (RedisGet (''address:'' @ slugify E a)) w else w)"
    by (cases "redis w (''address:'' @ slugify E a)") (auto simp: redis_get_def)
  show ?thesis
    unfolding geocode_def Let_def cv
    by (auto simp: redis_set_def split: sum.splits error.splits)
qed

text \<open>
  Claim C6. Let the geocoder resolve the address (its reply has a first result with a
  location, \<open>loc\<close>) and let the cache hold nothing under the address's key. The first call
  returns \<open>loc\<close>, a pair \<^verbatim>\<open>[lng, lat]\<close>, and makes exactly three calls, in this order: one
  cache read, one geocoder request, one cache write of the serialised pair with the expiry
  \<open>ttl\<close>. A second call, made when the entry's remaining life has run down to any \<open>t\<close>,
  returns the decoded cached pair and makes exactly two calls, a cache read and an
  \<^verbatim>\<open>expire\<close> with the whole \<open>ttl\<close>: no geocoder request, and the cache is again as the first
  call left it, the entry with its full life.
\<close>

theorem geocode_cache_aside:
  assumes "requests_get E address = Inr reply" and "raw_location reply = Inr loc"
    and "redis w (''address:'' @ slugify E address) = None"
    and "geocode E address True ttl w = (r1, w1)"
    and "geocode E address True ttl
           (w1\<lparr>redis := (redis w1)(''address:'' @ slugify E address \<mapsto> (dumps E loc, t))\<rparr>)
         = (r2, w2)"
  shows "r1 = Inr loc
       \<and> (\<exists>lng lat. loc = PList [lng, lat])
       \<and> trace w1 = trace w @ [RedisGet (''address:'' @ slugify E address),
                                GeocoderCall address,
                                RedisSet (''address:'' @ slugify E address) (dumps E loc) ttl]
       \<and> redis w1 = (redis w)(''address:'' @ slugify E address \<mapsto> (dumps E loc, ttl))
       \<and> r2 = loads E (dumps E loc)
       \<and> trace w2 = trace w1 @ [RedisGet (''address:'' @ slugify E address),
                                 RedisExpire (''address:'' @ slugify E address) ttl]
       \<and> redis w2 = redis w1"
proof -
  let ?key = "''address:'' @ slugify E address"
  from geocode_miss[OF assms(3,1,2), of ttl] assms(4)
  have r1: "r1 = Inr loc"
    and w1: "w1 = redis_set ?key (dumps E loc) ttl (emit (GeocoderCall address) (emit (RedisGet ?key) w))"
    by simp_all
  from w1 have t1: "trace w1 = trace w @ [RedisGet ?key, GeocoderCall address,
                                          RedisSet ?key (dumps E loc) ttl]"
    and s1: "redis w1 = (redis w)(?key \<mapsto> (dumps E loc, ttl))"
    by (simp_all add: redis_set_def)
  let ?w1' = "w1\<lparr>redis := (redis w1)(?key \<mapsto> (dumps E loc, t))\<rparr>"
  have "redis ?w1' ?key = Some (dumps E loc, t)" by simp
  from geocode_hit[OF this, of ttl] assms(5)
  have r2: "r2 = loads E (dumps E loc)"
    and w2: "w2 = redis_expire ?key ttl (emit (RedisGet ?key) ?w1')"
    by simp_all
  from w2 have t2: "trace w2 = trace w1 @ [RedisGet ?key, RedisExpire ?key ttl]"
    by (simp add: redis_expire_def emit_def)
  from w2 s1 have s2: "redis w2 = redis w1"
    by (simp add: redis_expire_def emit_def)
  from r1 raw_location_pair[OF assms(2)] t1 s1 r2 t2 s2 show ?thesis by blast
qed

text \<open>
  Claim C6 on the sample deployment, for the address \<^verbatim>\<open>ljubljana\<close>, with the expiry 86400
  of \<^verbatim>\<open>geocode\<close>'s default and a second call made when 5 seconds of life are left.
\<close>

theorem geocode_cache_aside_witness:
  "requests_get (with_args []) ''ljubljana'' = Inr (sample_reply ''ljubljana'')
   \<and> raw_location (sample_reply ''ljubljana'') = Inr (PList [PNum 14, PNum 46])
   \<and> redis world0 (''address:'' @ slugify (with_args []) ''ljubljana'') = None
   \<and> fst (geocode (with_args []) ''ljubljana'' True 86400 world0) = Inr (PList [PNum 14, PNum 46])
   \<and> trace (snd (geocode (with_args []) ''ljubljana'' True 86400 world0))
       = [RedisGet ''address:ljubljana'', GeocoderCall ''ljubljana'',
          RedisSet ''address:ljubljana'' ''[14, 46]'' 86400]
   \<and> fst (geocode (with_args []) ''ljubljana'' True 86400
            ((snd (geocode (with_args []) ''ljubljana'' True 86400 world0))
               \<lparr>redis := (redis (snd (geocode (with_args []) ''ljubljana'' True 86400 world0)))
                            (''address:ljubljana'' \<mapsto> (''[14, 46]'', 5))\<rparr>))
       = Inr (PList [PNum 14, PNum 46])
   \<and> trace (snd (geocode (with_args []) ''ljubljana'' True 86400
            ((snd (geocode (with_args []) ''ljubljana'' True 86400 world0))
               \<lparr>redis := (redis (snd (geocode (with_args []) ''ljubljana'' True 86400 world0)))
                            (''address:ljubljana'' \<mapsto> (''[14, 46]'', 5))\<rparr>)))
       = [RedisGet ''address:ljubljana'', GeocoderCall ''ljubljana'',
          RedisSet ''address:ljubljana'' ''[14, 46]'' 86400,
          RedisGet ''address:ljubljana'', RedisExpire ''address:ljubljana'' 86400]
   \<and> redis (snd (geocode (with_args []) ''ljubljana'' True 86400
            ((snd (geocode (with_args []) ''ljubljana'' True 86400 world0))
               \<lparr>redis := (redis (snd (geocode (with_args []) ''ljubljana'' True 86400 world0)))
                            (''address:ljubljana'' \<mapsto> (''[14, 46]'', 5))\<rparr>)))
         ''address:ljubljana''
       = Some (''[14, 46]'', 86400)"
proof -
  let ?E = "with_args [] :: int env"
  let ?g1 = "geocode ?E ''ljubljana'' True 86400 world0"
  let ?w1' = "(snd ?g1)\<lparr>redis := (redis (snd ?g1))(''address:ljubljana'' \<mapsto> (''[14, 46]'', 5))\<rparr>"
  let ?g2 = "geocode ?E ''ljubljana'' True 86400 ?w1'"
  have k: "''address:'' @ slugify ?E ''ljubljana'' = ''address:ljubljana''" by simp
  have j: "dumps ?E (PList [PNum 14, PNum 46]) = ''[14, 46]''" by simp
  have h1: "requests_get ?E ''ljubljana'' = Inr (sample_reply ''ljubljana'')" by simp
  have h2: "raw_location (sample_reply ''ljubljana'') = Inr (PList [PNum 14, PNum 46])"
    by (rule sample_raw_location)
  have h3: "redis world0 (''address:'' @ slugify ?E ''ljubljana'') = None" by simp
  have h4: "?g1 = (fst ?g1, snd ?g1)" by simp
  have h5: "geocode ?E ''ljubljana'' True 86400
           ((snd ?g1)\<lparr>redis := (redis (snd ?g1))(''address:'' @ slugify ?E ''ljubljana''
               \<mapsto> (dumps ?E (PList [PNum 14, PNum 46]), 5))\<rparr>)
         = (fst ?g2, snd ?g2)"
    unfolding k j by simp
  note c = geocode_cache_aside[OF h1 h2 h3 h4 h5]
  note c1 = c[THEN conjunct1]
  note c3 = c[THEN conjunct2, THEN conjunct2, THEN conjunct1]
  note c4 = c[THEN conjunct2, THEN conjunct2, THEN conjunct2, THEN conjunct1]
  note c5 = c[THEN conjunct2, THEN conjunct2, THEN conjunct2, THEN conjunct2, THEN conjunct1]
  note c6 = c[THEN conjunct2, THEN conjunct2, THEN conjunct2, THEN conjunct2, THEN conjunct2,
              THEN conjunct1]
  note c7 = c[THEN conjunct2, THEN conjunct2, THEN conjunct2, THEN conjunct2, THEN conjunct2,
              THEN conjunct2]
  have l: "loads ?E ''[14, 46]'' = Inr (PList [PNum 14, PNum 46])" by simp
  have r1: "fst ?g1 = Inr (PList [PNum 14, PNum 46])" by (rule c1)
  have t1: "trace (snd ?g1) = [RedisGet ''address:ljubljana'', GeocoderCall ''ljubljana'',
          RedisSet ''address:ljubljana'' ''[14, 46]'' 86400]"
    using c3 unfolding k j by simp
  have s1: "redis (snd ?g1) ''address:ljubljana'' = Some (''[14, 46]'', 86400)"
    using c4 unfolding k j by simp
  have r2: "fst ?g2 = Inr (PList [PNum 14, PNum 46])"
    using c5 unfolding k j l .
  have t2: "trace (snd ?g2) = [RedisGet ''address:ljubljana'', GeocoderCall ''ljubljana'',
          RedisSet ''address:ljubljana'' ''[14, 46]'' 86400,
          RedisGet ''address:ljubljana'', RedisExpire ''address:ljubljana'' 86400]"
    using c6 unfolding k j t1 by simp
  have s2: "redis (snd ?g2) ''address:ljubljana'' = Some (''[14, 46]'', 86400)"
    using c7 s1 unfolding k j by simp
  from h1 h2 h3 r1 t1 r2 t2 s2 show ?thesis by (intro conjI)
qed

section \<open>Distance Calculator: the order of the coordinates\<close>

lemma geo_env_haversine [simp]: "haversine geo_env = lib_haversine"
  by (simp add: geo_env_def)

lemma compute_distance_reads_lng_as_lat:
  "compute_distance geo_env
     [(''loc'', PDict [(''type'', PStr ''Point''), (''coordinates'', PList [PNum lng1, PNum lat1])])]
     (PList [PNum lng2, PNum lat2])
   = Inr [(''loc'', PDict [(''type'', PStr ''Point''), (''coordinates'', PList [PNum lng1, PNum lat1])]),
          (''distance'', PNum (great_circle_km lng1 lat1 lng2 lat2 * 1000))]"
  by (simp add: compute_distance_def)

lemma arcsin_sqrt_half: "arcsin (sqrt (1 / 2)) = pi / 4"
proof -
  have "sqrt (1 / 2) = sqrt 2 / 2"
    by (rule real_sqrt_unique) (simp_all add: power2_eq_square)
  also have "\<dots> = sin (pi / 4)" by (simp add: sin_45)
  finally have "arcsin (sqrt (1 / 2)) = arcsin (sin (pi / 4))" by simp
  also have "\<dots> = pi / 4" by (rule arcsin_sin) simp_all
  finally show ?thesis .
qed

lemma sin_45_sq: "(sin (pi / 4)) ^ 2 = (1 / 2 :: real)"
  by (simp add: sin_45 power2_eq_square)

lemma great_circle_swapped_pole: "great_circle_km 0 90 90 90 = 6371.0088 * pi / 2"
proof -
  have "great_circle_km 0 90 90 90 = 2 * 6371.0088 * arcsin (sqrt (1 / 2))"
    by (simp add: great_circle_km_def radians_def sin_45_sq)
  then show ?thesis by (simp add: arcsin_sqrt_half)
qed

lemma great_circle_pole: "great_circle_km 90 0 90 90 = 0"
  by (simp add: great_circle_km_def radians_def)

text \<open>
  Claim C4 does not hold on the code. \<open>compute_distance\<close> hands the two \<^verbatim>\<open>[lng, lat]\<close> lists
  to the library as they are, and the library reads the first component of a point as
  its latitude. For the station at \<^verbatim>\<open>[0, 90]\<close> and the reference point \<^verbatim>\<open>[90, 90]\<close>, both
  the North Pole, the formula between the two points gives 0 metres, and the annotation
  is a quarter of a meridian, more than 6000 km.
\<close>

theorem compute_distance_swaps_coordinates:
  "compute_distance geo_env
     [(''loc'', PDict [(''type'', PStr ''Point''), (''coordinates'', PList [PNum 0, PNum 90])])]
     (PList [PNum 90, PNum 90])
   = Inr [(''loc'', PDict [(''type'', PStr ''Point''), (''coordinates'', PList [PNum 0, PNum 90])]),
          (''distance'', PNum (6371.0088 * pi / 2 * 1000))]
   \<and> distance_meters (0, 90) (90, 90) = 0
   \<and> (6000000 :: real) < 6371.0088 * pi / 2 * 1000"
proof (intro conjI)
  show "compute_distance geo_env
     [(''loc'', PDict [(''type'', PStr ''Point''), (''coordinates'', PList [PNum 0, PNum 90])])]
     (PList [PNum 90, PNum 90])
   = Inr [(''loc'', PDict [(''type'', PStr ''Point''), (''coordinates'', PList [PNum 0, PNum 90])]),
          (''distance'', PNum (6371.0088 * pi / 2 * 1000))]"
    unfolding compute_distance_reads_lng_as_lat great_circle_swapped_pole by simp
  show "distance_meters (0, 90) (90, 90) = 0"
    by (simp add: distance_meters_def great_circle_pole)
  have "(2 :: real) \<le> pi" by (rule pi_ge_two)
  then show "(6000000 :: real) < 6371.0088 * pi / 2 * 1000" by simp
qed

section \<open>Result Projector: prices and nested keys\<close>

lemma unslugify_fold_keys:
  "fst ` set (foldl (\<lambda>d (key, v). dict_set d (replace CHR ''-'' CHR ''_'' key) v) acc dic)
     = fst ` set acc \<union> (\<lambda>p. replace CHR ''-'' CHR ''_'' (fst p)) ` set dic"
proof (induction dic arbitrary: acc)
  case Nil
  show ?case by simp
next
  case (Cons p dic)
  obtain k v where p: "p = (k, v)" by (cases p)
  show ?case unfolding p by (simp add: Cons.IH keys_dict_set)
qed

lemma unslugify_fold_distinct:
  "distinct (map fst acc) \<Longrightarrow>
   distinct (map fst (foldl (\<lambda>d (key, v). dict_set d (replace CHR ''-'' CHR ''_'' key) v) acc dic))"
proof (induction dic arbitrary: acc)
  case Nil
  then show ?case by simp
next
  case (Cons p dic)
  obtain k v where p: "p = (k, v)" by (cases p)
  show ?case unfolding p using Cons.prems by (simp add: Cons.IH distinct_dict_set)
qed

lemma unslugify_fold:
  "distinct (map fst acc @ map (\<lambda>p. replace CHR ''-'' CHR ''_'' (fst p)) dic) \<Longrightarrow>
   foldl (\<lambda>d (key, v). dict_set d (replace CHR ''-'' CHR ''_'' key) v) acc dic
     = acc @ map (\<lambda>(key, v). (replace CHR ''-'' CHR ''_'' key, v)) dic"
proof (induction dic arbitrary: acc)
  case Nil
  then show ?case by simp
next
  case (Cons p dic)
  obtain k v where p: "p = (k, v)" by (cases p)
  from Cons.prems p have fresh: "replace CHR ''-'' CHR ''_'' k \<notin> fst ` set acc" by auto
  from Cons.prems p
  have "distinct (map fst (acc @ [(replace CHR ''-'' CHR ''_'' k, v)])
                  @ map (\<lambda>p. replace CHR ''-'' CHR ''_'' (fst p)) dic)"
    by auto
  from Cons.IH[OF this] p fresh show ?case by (simp add: dict_set_fresh)
qed

lemma replace_no_hyphen: "CHR ''-'' \<notin> set (replace CHR ''-'' CHR ''_'' s)"
  by (auto simp: replace_def)

text \<open>
  Claim C8, as amended. \<open>unslugify_dict\<close> builds a dict keyed by the rewritten keys, so the
  result of \<open>enrich_prices\<close> has one \<^verbatim>\<open>{type, price}\<close> element for each \<^emph>\<open>distinct\<close> rewritten
  key, none of which has a hyphen. When the rewritten keys of the mapping are distinct
  (no two keys differ only in \<^verbatim>\<open>-\<close> against \<^verbatim>\<open>_\<close>) there is exactly one element for each
  entry, in the mapping's order, with the entry's price. In particular
  \<^verbatim>\<open>{"super-95": p}\<close> gives \<^verbatim>\<open>[{"type": "super_95", "price": p}]\<close>.
\<close>

theorem enrich_prices_entries:
  "(\<exists>prices. unslugify_dict (PDict (dic :: 'f pydict)) = Inr prices
        \<and> distinct (map fst prices)
        \<and> fst ` set prices = (\<lambda>(key, v). replace CHR ''-'' CHR ''_'' key) ` set dic
        \<and> (\<forall>k \<in> fst ` set prices. CHR ''-'' \<notin> set k)
        \<and> enrich_prices (PDict dic)
            = Inr (PList (map (\<lambda>(k, v). PDict [(''type'', PStr k), (''price'', v)]) prices)))
   \<and> (distinct (map (\<lambda>(key, v). replace CHR ''-'' CHR ''_'' key) dic) \<longrightarrow>
        enrich_prices (PDict dic)
          = Inr (PList (map (\<lambda>(key, v). PDict [(''type'', PStr (replace CHR ''-'' CHR ''_'' key)),
                                                (''price'', v)]) dic)))
   \<and> enrich_prices (PDict [(''super-95'', price :: 'f pyval)])
        = Inr (PList [PDict [(''type'', PStr ''super_95''), (''price'', price)]])"
proof (intro conjI impI)
  let ?u = "foldl (\<lambda>d (key, v). dict_set d (replace CHR ''-'' CHR ''_'' key) v) [] dic"
  have u: "unslugify_dict (PDict dic) = Inr ?u" by simp
  have d: "distinct (map fst ?u)" by (rule unslugify_fold_distinct) simp
  have k: "fst ` set ?u = (\<lambda>(key, v). replace CHR ''-'' CHR ''_'' key) ` set dic"
    using unslugify_fold_keys[of "[]" dic] by (simp add: case_prod_unfold)
  have h: "\<forall>k \<in> fst ` set ?u. CHR ''-'' \<notin> set k"
    unfolding k by (auto simp: replace_no_hyphen)
  have e: "enrich_prices (PDict dic)
            = Inr (PList (map (\<lambda>(k, v). PDict [(''type'', PStr k), (''price'', v)]) ?u))"
    by (simp add: enrich_prices_def)
  from u d k h e
  show "\<exists>prices. unslugify_dict (PDict dic) = Inr prices
        \<and> distinct (map fst prices)
        \<and> fst ` set prices = (\<lambda>(key, v). replace CHR ''-'' CHR ''_'' key) ` set dic
        \<and> (\<forall>k \<in> fst ` set prices. CHR ''-'' \<notin> set k)
        \<and> enrich_prices (PDict dic)
            = Inr (PList (map (\<lambda>(k, v). PDict [(''type'', PStr k), (''price'', v)]) prices))"
    by blast
next
  assume "distinct (map (\<lambda>(key, v). replace CHR ''-'' CHR ''_'' key) dic)"
  then have "distinct (map fst [] @ map (\<lambda>p. replace CHR ''-'' CHR ''_'' (fst p)) dic)"
    by (simp add: case_prod_unfold)
  from unslugify_fold[OF this]
  show "enrich_prices (PDict dic)
          = Inr (PList (map (\<lambda>(key, v). PDict [(''type'', PStr (replace CHR ''-'' CHR ''_'' key)),
                                                (''price'', v)]) dic))"
    by (simp add: enrich_prices_def case_prod_unfold comp_def)
next
  show "enrich_prices (PDict [(''super-95'', price)])
        = Inr (PList [PDict [(''type'', PStr ''super_95''), (''price'', price)]])"
    by (simp add: enrich_prices_def replace_def)
qed

text \<open>
  Claim C8 on the prices of the sample station.
\<close>

theorem enrich_prices_entries_witness:
  "distinct (map (\<lambda>(key, v). replace CHR ''-'' CHR ''_'' key)
               [(''diesel'', PNum (1::int)), (''super-95'', PNum 2)])
   \<and> enrich_prices (PDict [(''diesel'', PNum (1::int)), (''super-95'', PNum 2)])
       = Inr (PList [PDict [(''type'', PStr ''diesel''), (''price'', PNum 1)],
                     PDict [(''type'', PStr ''super_95''), (''price'', PNum 2)]])"
proof -
  have d: "distinct (map (\<lambda>(key, v). replace CHR ''-'' CHR ''_'' key)
               [(''diesel'', PNum (1::int)), (''super-95'', PNum 2)])"
    by (simp add: replace_def)
  from enrich_prices_entries[of "[(''diesel'', PNum (1::int)), (''super-95'', PNum 2)]" "PNum 2"] d
  show ?thesis by (simp add: replace_def)
qed

text \<open>
  Claim C8 as the specification states it does not hold: the keys \<^verbatim>\<open>super-95\<close> and
  \<^verbatim>\<open>super_95\<close> are rewritten to the same key, and the mapping of two entries gives one
  element (with the price of the later entry).
\<close>

theorem enrich_prices_collision_counterexample:
  "enrich_prices (PDict [(''super-95'', PNum (1::int)), (''super_95'', PNum 2)])
     = Inr (PList [PDict [(''type'', PStr ''super_95''), (''price'', PNum 2)]])
   \<and> length [(''super-95'', PNum (1::int)), (''super_95'', PNum 2)] = 2"
  by (simp add: enrich_prices_def replace_def)

lemma simple_station_items_keys:
  "simple_station_items inc m items acc = Inr out \<Longrightarrow>
     fst ` set out = fst ` set acc \<union> {k \<in> fst ` set items. CHR ''.'' \<in> set k \<or> k \<in> set inc}"
proof (induction inc m items acc rule: simple_station_items.induct)
  case (1 inc m acc)
  then show ?case by simp
next
  case (2 inc m key v items acc)
  show ?case
  proof (cases "CHR ''.'' \<in> set key \<or> key \<in> set inc")
    case True
    with "2.prems" obtain r where "result_of m key v = Inr r"
      and "simple_station_items inc m items (dict_set acc key r) = Inr out"
      by (auto simp: ebind_Inr_iff)
    with "2.IH"(1)[OF True] have "fst ` set out = insert key (fst ` set acc) \<union> {k \<in> fst ` set items. CHR ''.'' \<in> set k \<or> k \<in> set inc}"
      by (simp add: keys_dict_set)
    with True show ?thesis by auto
  next
    case False
    with "2.prems" have "simple_station_items inc m items acc = Inr out" by simp
    from "2.IH"(2)[OF False this] False show ?thesis by auto
  qed
qed

lemma simple_station_keys:
  assumes "simple_station station inc m = Inr out"
  shows "fst ` set out = {k \<in> fst ` set station. CHR ''.'' \<in> set k \<or> k \<in> set inc}"
  using simple_station_items_keys[of inc m station "[]" out] assms
  by (simp add: simple_station_def)

lemma simple_station_items_other:
  "simple_station_items inc m items acc = Inr out \<Longrightarrow> k \<notin> fst ` set items \<Longrightarrow>
     map_of out k = map_of acc k"
proof (induction inc m items acc rule: simple_station_items.induct)
  case (1 inc m acc)
  then show ?case by simp
next
  case (2 inc m key v items acc)
  from "2.prems"(2) have ne: "k \<noteq> key" and notin: "k \<notin> fst ` set items" by auto
  show ?case
  proof (cases "CHR ''.'' \<in> set key \<or> key \<in> set inc")
    case True
    with "2.prems"(1) obtain r where "result_of m key v = Inr r"
      and rest: "simple_station_items inc m items (dict_set acc key r) = Inr out"
      by (auto simp: ebind_Inr_iff)
    from "2.IH"(1)[OF True rest notin] ne show ?thesis by (simp add: map_of_dict_set)
  next
    case False
    with "2.prems"(1) have "simple_station_items inc m items acc = Inr out" by simp
    from "2.IH"(2)[OF False this notin] show ?thesis .
  qed
qed

lemma simple_station_items_value:
  "simple_station_items inc m items acc = Inr out \<Longrightarrow> distinct (map fst items) \<Longrightarrow>
   (k, v) \<in> set items \<Longrightarrow> CHR ''.'' \<in> set k \<or> k \<in> set inc \<Longrightarrow>
     \<exists>r. result_of m k v = Inr r \<and> map_of out k = Some r"
proof (induction inc m items acc rule: simple_station_items.induct)
  case (1 inc m acc)
  then show ?case by simp
next
  case (2 inc m key v' items acc)
  show ?case
  proof (cases "k = key")
    case True
    from "2.prems"(2) have notin: "key \<notin> fst ` set items" by simp
    with "2.prems"(3) True have v: "v' = v" by (auto simp: image_iff)
    from "2.prems"(1,4) True v obtain r where r: "result_of m k v = Inr r"
      and rest: "simple_station_items inc m items (dict_set acc k r) = Inr out"
      by (auto simp: ebind_Inr_iff)
    from simple_station_items_other[OF rest] notin True r show ?thesis
      by (simp add: map_of_dict_set)
  next
    case False
    with "2.prems"(3) have mem: "(k, v) \<in> set items" by simp
    from "2.prems"(2) have dist: "distinct (map fst items)" by simp
    show ?thesis
    proof (cases "CHR ''.'' \<in> set key \<or> key \<in> set inc")
      case True
      with "2.prems"(1) obtain r where "result_of m key v' = Inr r"
        and rest: "simple_station_items inc m items (dict_set acc key r) = Inr out"
        by (auto simp: ebind_Inr_iff)
      from "2.IH"(1)[OF True rest dist mem "2.prems"(4)] show ?thesis .
    next
      case F: False
      with "2.prems"(1) have "simple_station_items inc m items acc = Inr out" by simp
      from "2.IH"(2)[OF F this dist mem "2.prems"(4)] show ?thesis .
    qed
  qed
qed

lemma simple_station_value:
  assumes "simple_station station inc m = Inr out" and "distinct (map fst station)"
    and "(k, v) \<in> set station" and "CHR ''.'' \<in> set k \<or> k \<in> set inc"
  shows "\<exists>r. result_of m k v = Inr r \<and> map_of out k = Some r"
  using simple_station_items_value[of inc m station "[]" out k v] assms
  by (simp add: simple_station_def)

lemma result_of_prices: "result_of (transforms E) ''prices'' v = enrich_prices v"
  by (simp add: result_of_def transforms_def)

section \<open>Station Query Service: filter, projection and reference point\<close>

lemma build_where_falsy: "\<not> truthy at' \<Longrightarrow> build_where E at' = Inr [(''company'', PStr ''petrol'')]"
  by (simp add: build_where_def)

lemma build_where_truthy:
  "truthy at' \<Longrightarrow> safe_distance E = Inr d \<Longrightarrow>
     build_where E at' = Inr [(''company'', PStr ''petrol''), (''loc'', near_clause at' d)]"
  by (simp add: build_where_def)

lemma build_where_Inr:
  assumes "build_where E at' = Inr wh"
  shows "wh = [(''company'', PStr ''petrol'')]
       \<or> (\<exists>d. safe_distance E = Inr d
              \<and> wh = [(''company'', PStr ''petrol''), (''loc'', near_clause at' d)])"
  using assms by (cases "truthy at'") (auto simp: build_where_def ebind_Inr_iff)

lemma split_empty: "filter (\<lambda>n. n \<noteq> []) (split CHR '','' []) = []"
  by simp

lemma parse_at_empty:
  assumes "args E ''at'' = None \<or> args E ''at'' = Some []"
  shows "parse_at E = Inr (PList [])"
  using assms by (auto simp: parse_at_def)

lemma reference_point_none:
  assumes "args E ''near'' = None" and "args E ''at'' = None \<or> args E ''at'' = Some []"
  shows "reference_point E w = (Inr (PList []), w)"
  using assms(1) parse_at_empty[OF assms(2)] by (simp add: reference_point_def)

lemma reference_point_trace:
  "\<exists>evs. trace (snd (reference_point E w)) = trace w @ evs \<and> (\<forall>wh p n. StoreFind wh p n \<notin> set evs)"
proof (cases "parse_at E")
  case (Inl e)
  then show ?thesis by (simp add: reference_point_def)
next
  case (Inr at')
  show ?thesis
  proof (cases "args E ''near''")
    case None
    with Inr show ?thesis by (simp add: reference_point_def)
  next
    case (Some near)
    show ?thesis
    proof (cases "near = []")
      case True
      with Inr Some show ?thesis by (simp add: reference_point_def)
    next
      case False
      with Inr Some have "reference_point E w = geocode E near True 86400 w"
        by (simp add: reference_point_def)
      with geocode_trace[of E near True 86400 w] show ?thesis by simp
    qed
  qed
qed

lemma list_stations_query:
  assumes "reference_point E w = (Inr at', w1)" and "build_where E at' = Inr wh"
    and "safe_limit E ''LIST_LIMIT'' ''LIST_DEFAULT_COUNT'' ''limit'' = Inr n"
  shows "snd (list_stations E w) = emit (StoreFind wh (projection (station_keys E)) n) w1"
  using assms by (simp add: list_stations_def Let_def)

lemma list_stations_result:
  assumes "reference_point E w = (Inr at', w1)" and "build_where E at' = Inr wh"
    and "safe_limit E ''LIST_LIMIT'' ''LIST_DEFAULT_COUNT'' ''limit'' = Inr n"
    and "find E wh (projection (station_keys E)) n = Inr docs"
    and "map_err (\<lambda>station. simple_station station
                    (station_keys E @ [''prices'', ''distance'']) (transforms E)) docs = Inr simple"
    and "(if truthy at' then map_err (\<lambda>station. compute_distance E station at') simple
          else Inr simple) = Inr result"
  shows "list_stations E w =
           (Inr \<lparr>status = ''ok'', stations = result, executed_in = time_end E - time_start E\<rparr>,
            emit (StoreFind wh (projection (station_keys E)) n) w1)"
  unfolding list_stations_def Let_def assms(1) prod.case sum.case assms(2) assms(3) assms(4)
    ebind_Inr assms(5) assms(6)
  by (rule refl)

lemma list_stations_store_query:
  assumes "StoreFind wh p n \<in> set (trace (snd (list_stations E w)))"
    and "StoreFind wh p n \<notin> set (trace w)"
  shows "\<exists>at' w1. reference_point E w = (Inr at', w1) \<and> build_where E at' = Inr wh
           \<and> p = projection (station_keys E)
           \<and> safe_limit E ''LIST_LIMIT'' ''LIST_DEFAULT_COUNT'' ''limit'' = Inr n"
proof -
  obtain r w1 where rp: "reference_point E w = (r, w1)" by (cases "reference_point E w")
  from reference_point_trace[of E w] rp obtain evs where
    evs: "trace w1 = trace w @ evs" "\<forall>wh p n. StoreFind wh p n \<notin> set evs" by auto
  with assms(2) have notin: "StoreFind wh p n \<notin> set (trace w1)" by auto
  show ?thesis
  proof (cases r)
    case (Inl e)
    with rp assms(1) notin show ?thesis by (simp add: list_stations_def Let_def)
  next
    case (Inr at')
    note at = this
    show ?thesis
    proof (cases "build_where E at'")
      case (Inl e)
      with rp at assms(1) notin show ?thesis by (simp add: list_stations_def Let_def)
    next
      case (Inr wh')
      note wh' = this
      show ?thesis
      proof (cases "safe_limit E ''LIST_LIMIT'' ''LIST_DEFAULT_COUNT'' ''limit''")
        case (Inl e)
        with rp at wh' assms(1) notin show ?thesis by (simp add: list_stations_def Let_def)
      next
        case (Inr n')
        from list_stations_query[OF _ wh' Inr, of w w1] rp at
        have "snd (list_stations E w) = emit (StoreFind wh' (projection (station_keys E)) n') w1"
          by simp
        with assms(1) notin have "wh = wh' \<and> p = projection (station_keys E) \<and> n = n'"
          by auto
        with rp at wh' Inr show ?thesis by simp
      qed
    qed
  qed
qed

lemma list_stations_Inr:
  assumes "list_stations E w = (Inr resp, w')"
  shows "\<exists>at' w1 wh n docs simple.
           reference_point E w = (Inr at', w1) \<and> build_where E at' = Inr wh
         \<and> safe_limit E ''LIST_LIMIT'' ''LIST_DEFAULT_COUNT'' ''limit'' = Inr n
         \<and> find E wh (projection (station_keys E)) n = Inr docs
         \<and> map_err (\<lambda>station. simple_station station
                      (station_keys E @ [''prices'', ''distance'']) (transforms E)) docs = Inr simple
         \<and> (if truthy at' then map_err (\<lambda>station. compute_distance E station at') simple
             else Inr simple) = Inr (stations resp)
         \<and> status resp = ''ok''
         \<and> w' = emit (StoreFind wh (projection (station_keys E)) n) w1"
proof -
  obtain r w1 where rp: "reference_point E w = (r, w1)" by (cases "reference_point E w")
  show ?thesis
  proof (cases r)
    case (Inl e)
    with rp assms show ?thesis by (simp add: list_stations_def Let_def)
  next
    case (Inr at')
    note at = this
    show ?thesis
    proof (cases "build_where E at'")
      case (Inl e)
      with rp at assms show ?thesis by (simp add: list_stations_def Let_def)
    next
      case (Inr wh)
      note wh = this
      show ?thesis
      proof (cases "safe_limit E ''LIST_LIMIT'' ''LIST_DEFAULT_COUNT'' ''limit''")
        case (Inl e)
        with rp at wh assms show ?thesis by (simp add: list_stations_def Let_def)
      next
        case (Inr n)
        from assms have
          "ebind (find E wh (projection (station_keys E)) n) (\<lambda>docs.
             ebind (map_err (\<lambda>station. simple_station station
                      (station_keys E @ [''prices'', ''distance'']) (transforms E)) docs)
               (\<lambda>simple.
             ebind (if truthy at'
                    then map_err (\<lambda>station. compute_distance E station at') simple
                    else Inr simple) (\<lambda>result.
             Inr \<lparr>status = ''ok'', stations = result,
                  executed_in = time_end E - time_start E\<rparr>))) = Inr resp"
          and w': "w' = emit (StoreFind wh (projection (station_keys E)) n) w1"
          unfolding list_stations_def Let_def rp at wh Inr prod.case sum.case by simp_all
        then obtain docs simple result where
          "find E wh (projection (station_keys E)) n = Inr docs"
          "map_err (\<lambda>station. simple_station station
                      (station_keys E @ [''prices'', ''distance'']) (transforms E)) docs = Inr simple"
          "(if truthy at' then map_err (\<lambda>station. compute_distance E station at') simple
             else Inr simple) = Inr result"
          "resp = \<lparr>status = ''ok'', stations = result, executed_in = time_end E - time_start E\<rparr>"
          unfolding ebind_Inr_iff by blast
        with rp at wh Inr w' show ?thesis by simp
      qed
    qed
  qed
qed

lemma sample_plain_run:
  assumes "map_of kvs ''near'' = None" and "map_of kvs ''at'' = None \<or> map_of kvs ''at'' = Some []"
    and "map_of kvs ''prices'' = None" and "map_of kvs ''limit'' = None"
  shows "list_stations (with_args kvs) world0 =
           (Inr \<lparr>status = ''ok'', stations = [sample_simple], executed_in = 1\<rparr>,
            emit (StoreFind [(''company'', PStr ''petrol'')]
                    [(''key'', PInt 1), (''loc'', PInt 1), (''address'', PInt 1),
                     (''updated_at'', PInt 1), (''prices'', PInt 1), (''scraped_url'', PInt 1)]
                    10) world0)"
proof -
  have rp: "reference_point (with_args kvs) world0 = (Inr (PList []), world0)"
    using assms(1,2) by (intro reference_point_none) simp_all
  have bw: "build_where (with_args kvs) (PList []) = Inr [(''company'', PStr ''petrol'')]"
    by (simp add: build_where_falsy)
  have sl: "safe_limit (with_args kvs) ''LIST_LIMIT'' ''LIST_DEFAULT_COUNT'' ''limit'' = Inr 10"
    using assms(4) by (rule with_args_limits)
  have f: "find (with_args kvs) [(''company'', PStr ''petrol'')]
             (projection (station_keys (with_args kvs))) 10 = Inr [sample_station]"
    by simp
  have m: "map_err (\<lambda>station. simple_station station
                    (station_keys (with_args kvs) @ [''prices'', ''distance''])
                    (transforms (with_args kvs))) [sample_station] = Inr [sample_simple]"
    using assms(3) by (simp add: with_args_keys sample_simple_station)
  have c: "(if truthy (PList [] :: int pyval)
            then map_err (\<lambda>station. compute_distance (with_args kvs) station (PList [])) [sample_simple]
            else Inr [sample_simple]) = Inr [sample_simple]"
    by simp
  from list_stations_result[OF rp bw sl f m c] assms(3) show ?thesis
    by (simp add: with_args_keys sample_projection)
qed

lemma sample_prices_run:
  "list_stations (with_args [(''prices'', ''diesel,super_95'')]) world0 =
     (Inr \<lparr>status = ''ok'', stations = [sample_simple], executed_in = 1\<rparr>,
      emit (StoreFind [(''company'', PStr ''petrol'')]
              [(''key'', PInt 1), (''loc'', PInt 1), (''address'', PInt 1), (''updated_at'', PInt 1),
               (''scraped_url'', PInt 1), (''prices.diesel'', PInt 1), (''prices.super-95'', PInt 1)]
              10) world0)"
proof -
  let ?E = "with_args [(''prices'', ''diesel,super_95'')]"
  have rp: "reference_point ?E world0 = (Inr (PList []), world0)"
    by (intro reference_point_none) simp_all
  have bw: "build_where ?E (PList []) = Inr [(''company'', PStr ''petrol'')]"
    by (simp add: build_where_falsy)
  have sl: "safe_limit ?E ''LIST_LIMIT'' ''LIST_DEFAULT_COUNT'' ''limit'' = Inr 10"
    by (simp add: with_args_limits)
  have f: "find ?E [(''company'', PStr ''petrol'')] (projection (station_keys ?E)) 10
             = Inr [sample_station]"
    by simp
  have m: "map_err (\<lambda>station. simple_station station
                    (station_keys ?E @ [''prices'', ''distance'']) (transforms ?E)) [sample_station]
             = Inr [sample_simple]"
    by (simp add: sample_prices_keys sample_prices_simple)
  have c: "(if truthy (PList [] :: int pyval)
            then map_err (\<lambda>station. compute_distance ?E station (PList [])) [sample_simple]
            else Inr [sample_simple]) = Inr [sample_simple]"
    by simp
  from list_stations_result[OF rp bw sl f m c] show ?thesis
    by (simp add: sample_prices_keys sample_prices_projection)
qed

text \<open>
  Claim C3, as amended. The filter of every query that \<open>list_stations\<close> sends to the store
  is \<^verbatim>\<open>{company: "petrol"}\<close>, alone or followed by the one \<^verbatim>\<open>loc\<close> clause of the reference
  point. No request parameter changes the entry; the field is named \<^verbatim>\<open>company\<close>, not
  \<^verbatim>\<open>category\<close>.
\<close>

theorem base_filter_company:
  assumes "StoreFind wh p n \<in> set (trace (snd (list_stations E w)))"
    and "StoreFind wh p n \<notin> set (trace w)"
  shows "wh = [(''company'', PStr ''petrol'')]
       \<or> (\<exists>at' d. wh = [(''company'', PStr ''petrol''), (''loc'', near_clause at' d)])"
proof -
  from list_stations_store_query[OF assms] obtain at' where "build_where E at' = Inr wh" by blast
  from build_where_Inr[OF this] show ?thesis by blast
qed

text \<open>
  Claim C3, as amended, on a request without parameters.
\<close>

theorem base_filter_company_witness:
  "StoreFind [(''company'', PStr ''petrol'')]
      [(''key'', PInt 1), (''loc'', PInt 1), (''address'', PInt 1),
       (''updated_at'', PInt 1), (''prices'', PInt 1), (''scraped_url'', PInt 1)] 10
     \<in> set (trace (snd (list_stations (with_args []) world0)))
   \<and> StoreFind [(''company'', PStr ''petrol'')]
      [(''key'', PInt 1), (''loc'', PInt 1), (''address'', PInt 1),
       (''updated_at'', PInt 1), (''prices'', PInt 1), (''scraped_url'', PInt 1)] 10
     \<notin> set (trace world0)"
proof -
  have run: "StoreFind [(''company'', PStr ''petrol'')]
      [(''key'', PInt 1), (''loc'', PInt 1), (''address'', PInt 1),
       (''updated_at'', PInt 1), (''prices'', PInt 1), (''scraped_url'', PInt 1)] 10
     \<in> set (trace (snd (list_stations (with_args []) world0)))"
    by (simp add: sample_plain_run)
  have new: "StoreFind [(''company'', PStr ''petrol'')]
      [(''key'', PInt 1), (''loc'', PInt 1), (''address'', PInt 1),
       (''updated_at'', PInt 1), (''prices'', PInt 1), (''scraped_url'', PInt 1)] 10
     \<notin> set (trace world0)"
    by simp
  from base_filter_company[OF run new] run new show ?thesis by simp
qed

text \<open>
  Claim C3 as the specification states it does not hold: a request without parameters
  makes one query, whose filter is \<^verbatim>\<open>{company: "petrol"}\<close> and has no field
  \<^verbatim>\<open>category\<close>.
\<close>

theorem base_filter_category_counterexample:
  "trace (snd (list_stations (with_args []) world0)) =
     [StoreFind [(''company'', PStr ''petrol'')]
        [(''key'', PInt 1), (''loc'', PInt 1), (''address'', PInt 1),
         (''updated_at'', PInt 1), (''prices'', PInt 1), (''scraped_url'', PInt 1)] 10]
   \<and> map_of [(''company'', PStr ''petrol'' :: int pyval)] ''category'' = None"
  by (simp add: sample_plain_run)

lemma top_field_prices: "takeWhile (\<lambda>c. c \<noteq> CHR ''.'') (''prices.'' @ t) = ''prices''"
  by simp

lemma station_keys_top:
  "k \<in> set (station_keys E) \<Longrightarrow>
     takeWhile (\<lambda>c. c \<noteq> CHR ''.'') k
       \<in> {''key'', ''loc'', ''address'', ''updated_at'', ''prices'', ''scraped_url''}"
  by (auto simp: station_keys_def Let_def split: option.splits if_splits)

text \<open>
  Claim C9. Let \<^verbatim>\<open>near\<close> be absent and \<^verbatim>\<open>at\<close> be the empty string (or absent, which the
  source reads as the empty string). Then the reference point is the empty list, found
  without an error and without a call to the cache or the geocoder; the filter is the base
  filter, with no \<^verbatim>\<open>loc\<close> clause; and whenever the limit parses, the store answers and the
  projection of its documents succeeds, the response is \<^verbatim>\<open>ok\<close> with exactly the projected
  documents: \<open>compute_distance\<close> is not applied. A projected document has a \<^verbatim>\<open>distance\<close>
  field only if the store's document has one, and the handler asks the store for no field
  of that name.
\<close>

theorem no_reference_point:
  assumes "args E ''near'' = None" and "args E ''at'' = None \<or> args E ''at'' = Some []"
  shows "reference_point E w = (Inr (PList []), w)
       \<and> build_where E (PList []) = Inr [(''company'', PStr ''petrol'')]
       \<and> (\<forall>n docs simple.
            safe_limit E ''LIST_LIMIT'' ''LIST_DEFAULT_COUNT'' ''limit'' = Inr n
            \<and> find E [(''company'', PStr ''petrol'')] (projection (station_keys E)) n = Inr docs
            \<and> map_err (\<lambda>station. simple_station station
                         (station_keys E @ [''prices'', ''distance'']) (transforms E)) docs
                = Inr simple
            \<longrightarrow> list_stations E w =
                  (Inr \<lparr>status = ''ok'', stations = simple,
                        executed_in = time_end E - time_start E\<rparr>,
                   emit (StoreFind [(''company'', PStr ''petrol'')]
                           (projection (station_keys E)) n) w)
                \<and> ((\<forall>d \<in> set docs. ''distance'' \<notin> fst ` set d)
                     \<longrightarrow> (\<forall>r \<in> set simple. ''distance'' \<notin> fst ` set r)))
       \<and> (\<forall>k \<in> set (station_keys E). takeWhile (\<lambda>c. c \<noteq> CHR ''.'') k \<noteq> ''distance'')"
proof -
  have rp: "reference_point E w = (Inr (PList []), w)"
    using assms by (rule reference_point_none)
  have bw: "build_where E (PList []) = Inr [(''company'', PStr ''petrol'')]"
    by (simp add: build_where_falsy)
  have run: "list_stations E w =
                  (Inr \<lparr>status = ''ok'', stations = simple,
                        executed_in = time_end E - time_start E\<rparr>,
                   emit (StoreFind [(''company'', PStr ''petrol'')]
                           (projection (station_keys E)) n) w)"
    if "safe_limit E ''LIST_LIMIT'' ''LIST_DEFAULT_COUNT'' ''limit'' = Inr n"
      and "find E [(''company'', PStr ''petrol'')] (projection (station_keys E)) n = Inr docs"
      and "map_err (\<lambda>station. simple_station station
                         (station_keys E @ [''prices'', ''distance'']) (transforms E)) docs
                = Inr simple"
    for n docs simple
    using list_stations_result[OF rp bw that, of simple] by simp
  have nodist: "''distance'' \<notin> fst ` set r"
    if m: "map_err (\<lambda>station. simple_station station
                         (station_keys E @ [''prices'', ''distance'']) (transforms E)) docs
                = Inr simple"
      and nd: "\<forall>d \<in> set docs. ''distance'' \<notin> fst ` set d" and r: "r \<in> set simple"
    for docs simple r
  proof -
    from map_err_set[OF m r] obtain d where d: "d \<in> set docs"
      and s: "simple_station d (station_keys E @ [''prices'', ''distance'']) (transforms E) = Inr r"
      by auto
    from simple_station_keys[OF s] have "fst ` set r \<subseteq> fst ` set d" by blast
    with nd d show ?thesis by blast
  qed
  have keys: "takeWhile (\<lambda>c. c \<noteq> CHR ''.'') k \<noteq> ''distance''" if "k \<in> set (station_keys E)" for k
    using station_keys_top[OF that] by auto
  from rp bw run nodist keys show ?thesis by blast
qed

text \<open>
  Claim C9 on the sample deployment, for the request \<^verbatim>\<open>at=\<close>.
\<close>

theorem no_reference_point_witness:
  "args (with_args [(''at'', '''')]) ''near'' = None
   \<and> args (with_args [(''at'', '''')]) ''at'' = Some []
   \<and> reference_point (with_args [(''at'', '''')]) world0 = (Inr (PList []), world0)
   \<and> list_stations (with_args [(''at'', '''')]) world0 =
        (Inr \<lparr>status = ''ok'', stations = [sample_simple], executed_in = 1\<rparr>,
         emit (StoreFind [(''company'', PStr ''petrol'')]
                 (projection (station_keys (with_args [(''at'', '''')]))) 10) world0)
   \<and> ''distance'' \<notin> fst ` set sample_station
   \<and> ''distance'' \<notin> fst ` set sample_simple"
proof -
  let ?E = "with_args [(''at'', '''')]"
  have n: "args ?E ''near'' = None" by simp
  have a: "args ?E ''at'' = None \<or> args ?E ''at'' = Some []" by simp
  have sl: "safe_limit ?E ''LIST_LIMIT'' ''LIST_DEFAULT_COUNT'' ''limit'' = Inr 10"
    by (simp add: with_args_limits)
  have f: "find ?E [(''company'', PStr ''petrol'')] (projection (station_keys ?E)) 10
             = Inr [sample_station]"
    by simp
  have m: "map_err (\<lambda>station. simple_station station
                    (station_keys ?E @ [''prices'', ''distance'']) (transforms ?E)) [sample_station]
             = Inr [sample_simple]"
    by (simp add: with_args_keys sample_simple_station)
  have d: "\<forall>d \<in> set [sample_station]. ''distance'' \<notin> fst ` set d"
    by (simp add: sample_station_def)
  from no_reference_point[OF n a, of world0] sl f m d
  have "reference_point ?E world0 = (Inr (PList []), world0)"
    and "list_stations ?E world0 =
        (Inr \<lparr>status = ''ok'', stations = [sample_simple], executed_in = time_end ?E - time_start ?E\<rparr>,
         emit (StoreFind [(''company'', PStr ''petrol'')] (projection (station_keys ?E)) 10) world0)"
    and "\<forall>r \<in> set [sample_simple]. ''distance'' \<notin> fst ` set r"
    by blast+
  with d show ?thesis by simp
qed

text \<open>
  Claim C10. The clamp has an upper bound only: a supplied integer below the ceiling, of
  whatever sign, is returned as it is, by \<open>safe_limit\<close> on any keys and so by
  \<open>safe_distance\<close>. What the two return is handed on unchanged: the result of
  \<open>safe_distance\<close> is the value of \<^verbatim>\<open>$maxDistance\<close> in the \<^verbatim>\<open>$near\<close> clause of the filter, next
  to the point's geometry, when there is a reference point; and the result of
  \<open>safe_limit\<close> is the limit of the store query.
\<close>

theorem clamp_passes_small_values:
  "(args E q = Some s \<and> py_int E s = Some v \<and> int_of E (config E key) = Inr hard_limit
      \<and> v < hard_limit \<longrightarrow> safe_limit E key dk q = Inr v)
   \<and> (args E ''maxDistance'' = Some s \<and> py_int E s = Some v
      \<and> int_of E (config E ''DISTANCE_LIMIT'') = Inr hard_limit \<and> v < hard_limit
      \<longrightarrow> safe_distance E = Inr v)
   \<and> (safe_distance E = Inr D \<and> truthy at' \<longrightarrow>
        build_where E at' =
          Inr [(''company'', PStr ''petrol''),
               (''loc'', PDict [(''$near'',
                  PDict [(''$geometry'',
                            PDict [(''type'', PStr ''Point''), (''coordinates'', at')]),
                         (''$maxDistance'', PInt D)])])])
   \<and> (safe_limit E ''LIST_LIMIT'' ''LIST_DEFAULT_COUNT'' ''limit'' = Inr L
      \<and> reference_point E w = (Inr at', w1) \<and> build_where E at' = Inr wh \<longrightarrow>
        snd (list_stations E w) = emit (StoreFind wh (projection (station_keys E)) L) w1)"
proof (intro conjI impI)
  assume "args E q = Some s \<and> py_int E s = Some v \<and> int_of E (config E key) = Inr hard_limit
      \<and> v < hard_limit"
  then have "safe_limit E key dk q = Inr (min v hard_limit)" and "v < hard_limit"
    by (simp_all add: safe_limit_supplied)
  then show "safe_limit E key dk q = Inr v" by simp
next
  assume "args E ''maxDistance'' = Some s \<and> py_int E s = Some v
      \<and> int_of E (config E ''DISTANCE_LIMIT'') = Inr hard_limit \<and> v < hard_limit"
  then have "safe_limit E ''DISTANCE_LIMIT'' ''DISTANCE_DEFAULT'' ''maxDistance''
               = Inr (min v hard_limit)"
    and "v < hard_limit"
    by (simp_all add: safe_limit_supplied)
  then show "safe_distance E = Inr v" by (simp add: safe_distance_def)
next
  assume "safe_distance E = Inr D \<and> truthy at'"
  then show "build_where E at' =
          Inr [(''company'', PStr ''petrol''),
               (''loc'', PDict [(''$near'',
                  PDict [(''$geometry'',
                            PDict [(''type'', PStr ''Point''), (''coordinates'', at')]),
                         (''$maxDistance'', PInt D)])])]"
    by (simp add: build_where_truthy near_clause_def)
next
  assume "safe_limit E ''LIST_LIMIT'' ''LIST_DEFAULT_COUNT'' ''limit'' = Inr L
      \<and> reference_point E w = (Inr at', w1) \<and> build_where E at' = Inr wh"
  then show "snd (list_stations E w) = emit (StoreFind wh (projection (station_keys E)) L) w1"
    by (simp add: list_stations_query)
qed

text \<open>
  Claim C10 on the request \<^verbatim>\<open>limit=-3&maxDistance=0&at=14,46\<close>: the one query sent asks
  for \<open>- 3\<close> stations within \<open>0\<close> metres of the point.
\<close>

theorem clamp_passes_small_values_witness:
  "safe_limit (with_args [(''limit'', ''-3''), (''maxDistance'', ''0''), (''at'', ''14,46'')])
      ''LIST_LIMIT'' ''LIST_DEFAULT_COUNT'' ''limit'' = Inr (- 3)
   \<and> safe_distance (with_args [(''limit'', ''-3''), (''maxDistance'', ''0''), (''at'', ''14,46'')])
      = Inr 0
   \<and> trace (snd (list_stations
        (with_args [(''limit'', ''-3''), (''maxDistance'', ''0''), (''at'', ''14,46'')]) world0))
     = [StoreFind
          [(''company'', PStr ''petrol''),
           (''loc'', PDict [(''$near'',
              PDict [(''$geometry'',
                        PDict [(''type'', PStr ''Point''),
                               (''coordinates'', PList [PNum 14, PNum 46])]),
                     (''$maxDistance'', PInt 0)])])]
          [(''key'', PInt 1), (''loc'', PInt 1), (''address'', PInt 1), (''updated_at'', PInt 1),
           (''prices'', PInt 1), (''scraped_url'', PInt 1)]
          (- 3)]"
proof -
  let ?E = "with_args [(''limit'', ''-3''), (''maxDistance'', ''0''), (''at'', ''14,46'')]"
  let ?at = "PList [PNum 14, PNum 46] :: int pyval"
  let ?wh = "[(''company'', PStr ''petrol''),
           (''loc'', PDict [(''$near'',
              PDict [(''$geometry'',
                        PDict [(''type'', PStr ''Point''), (''coordinates'', ?at)]),
                     (''$maxDistance'', PInt 0)])])]"
  have l: "args ?E ''limit'' = Some ''-3'' \<and> py_int ?E ''-3'' = Some (- 3)
           \<and> int_of ?E (config ?E ''LIST_LIMIT'') = Inr 50 \<and> (- 3 :: int) < 50"
    by (simp add: int_of_def)
  have d: "args ?E ''maxDistance'' = Some ''0'' \<and> py_int ?E ''0'' = Some 0
           \<and> int_of ?E (config ?E ''DISTANCE_LIMIT'') = Inr 50000 \<and> (0 :: int) < 50000"
    by (simp add: int_of_def)
  have t: "truthy ?at" by simp
  note c = clamp_passes_small_values
  have sl: "safe_limit ?E ''LIST_LIMIT'' ''LIST_DEFAULT_COUNT'' ''limit'' = Inr (- 3)"
    using c[THEN conjunct1, rule_format, OF l] .
  have sd: "safe_distance ?E = Inr 0"
    using c[THEN conjunct2, THEN conjunct1, rule_format, OF d] .
  have bw: "build_where ?E ?at = Inr ?wh"
    using c[THEN conjunct2, THEN conjunct2, THEN conjunct1, rule_format, OF conjI[OF sd t]] .
  have q: "snd (list_stations ?E world0)
             = emit (StoreFind ?wh (projection (station_keys ?E)) (- 3)) world0"
    using c[THEN conjunct2, THEN conjunct2, THEN conjunct2, rule_format,
            OF conjI[OF sl conjI[OF sample_reference_point bw]]] .
  have k: "(projection (station_keys ?E) :: int pydict)
             = [(''key'', PInt 1), (''loc'', PInt 1), (''address'', PInt 1),
                (''updated_at'', PInt 1), (''prices'', PInt 1), (''scraped_url'', PInt 1)]"
    by (simp add: with_args_keys sample_projection)
  have tr: "trace (snd (list_stations ?E world0))
              = [StoreFind ?wh
                   [(''key'', PInt 1), (''loc'', PInt 1), (''address'', PInt 1),
                    (''updated_at'', PInt 1), (''prices'', PInt 1), (''scraped_url'', PInt 1)]
                   (- 3)]"
    unfolding q k by simp
  from sl sd tr show ?thesis by (intro conjI)
qed

lemma projection_fold_keys:
  "fst ` set (foldl (\<lambda>d key. dict_set d key v) acc ks) = fst ` set acc \<union> set ks"
  by (induction ks arbitrary: acc) (simp_all add: keys_dict_set)

lemma projection_fold_distinct:
  "distinct (map fst acc) \<Longrightarrow> distinct (map fst (foldl (\<lambda>d key. dict_set d key v) acc ks))"
  by (induction ks arbitrary: acc) (simp_all add: distinct_dict_set)

lemma projection_keys: "fst ` set (projection ks) = set ks"
  using projection_fold_keys[of "PInt 1" "[]" ks] by (simp add: projection_def)

lemma projection_distinct: "distinct (map fst (projection ks))"
  unfolding projection_def by (rule projection_fold_distinct) simp

lemma station_keys_prices:
  assumes "args E ''prices'' = Some ps" and "ps \<noteq> []"
  shows "station_keys E =
           [''key'', ''loc'', ''address'', ''updated_at'', ''scraped_url'']
           @ map (\<lambda>p. ''prices.'' @ replace CHR ''_'' CHR ''-'' p) (split CHR '','' ps)"
  using assms by (simp add: station_keys_def)

lemma compute_distance_other:
  assumes "compute_distance E station at' = Inr station'" and "k \<noteq> ''distance''"
  shows "map_of station' k = map_of station k"
  using assms by (auto simp: compute_distance_def ebind_Inr_iff map_of_dict_set)

lemma prices_survive:
  assumes docs: "map_err (\<lambda>station. simple_station station
                      (station_keys E @ [''prices'', ''distance'']) (transforms E)) docs = Inr simple"
    and dist: "(if truthy at' then map_err (\<lambda>station. compute_distance E station at') simple
             else Inr simple) = Inr result"
  shows "list_all2 (\<lambda>doc r. \<forall>d. distinct (map fst doc) \<and> (''prices'', PDict d) \<in> set doc \<longrightarrow>
            (\<exists>xs. enrich_prices (PDict d) = Inr (PList xs) \<and> map_of r ''prices'' = Some (PList xs)))
           docs result"
proof -
  let ?P = "\<lambda>doc s. simple_station doc (station_keys E @ [''prices'', ''distance'']) (transforms E) = Inr s"
  let ?Q = "\<lambda>s r. map_of r ''prices'' = map_of s ''prices''"
  have 1: "list_all2 ?P docs simple" using map_err_Inr[OF docs] .
  have 2: "list_all2 ?Q simple result"
  proof (cases "truthy at'")
    case True
    with dist have "list_all2 (\<lambda>s r. compute_distance E s at' = Inr r) simple result"
      by (simp add: map_err_Inr)
    then show ?thesis
      by (rule list_all2_mono) (simp add: compute_distance_other)
  next
    case False
    with dist have "result = simple" by simp
    then show ?thesis by (simp add: list_all2_same)
  qed
  show ?thesis
  proof (rule list_all2_trans[OF _ 1 2])
    fix doc s r assume s: "?P doc s" and r: "?Q s r"
    show "\<forall>d. distinct (map fst doc) \<and> (''prices'', PDict d) \<in> set doc \<longrightarrow>
            (\<exists>xs. enrich_prices (PDict d) = Inr (PList xs) \<and> map_of r ''prices'' = Some (PList xs))"
    proof (intro allI impI)
      fix d assume a: "distinct (map fst doc) \<and> (''prices'', PDict d) \<in> set doc"
      have "''prices'' \<in> set (station_keys E @ [''prices'', ''distance''])" by simp
      with simple_station_value[OF s, of "''prices''" "PDict d"] a
      obtain x where "result_of (transforms E) ''prices'' (PDict d) = Inr x"
        and "map_of s ''prices'' = Some x" by blast
      with r have "enrich_prices (PDict d) = Inr x" and "map_of r ''prices'' = Some x"
        by (simp_all add: result_of_prices)
      moreover from this(1) obtain xs where "x = PList xs"
        by (auto simp: enrich_prices_def ebind_Inr_iff)
      ultimately show "\<exists>xs. enrich_prices (PDict d) = Inr (PList xs) \<and> map_of r ''prices'' = Some (PList xs)"
        by blast
    qed
  qed
qed

text \<open>
  Claim C7. Let the request have a non-empty \<^verbatim>\<open>prices\<close> parameter. The projection then has
  the five other base fields and the fields \<^verbatim>\<open>prices.<token>\<close>, underscores written as
  hyphens, of the requested tokens, and nothing else; each requested token has exactly
  one entry, and the bare field \<^verbatim>\<open>prices\<close> has none. This projection is the one of every
  query the handler sends. And in every response, the record of a store document that has
  a \<^verbatim>\<open>prices\<close> sub-document still has the field \<^verbatim>\<open>prices\<close>, the array that
  \<open>enrich_prices\<close> makes of the leaf fields returned.
\<close>

theorem prices_projection:
  assumes "args E ''prices'' = Some ps" and "ps \<noteq> []"
  shows "fst ` set (projection (station_keys E) :: 'f pydict)
           = {''key'', ''loc'', ''address'', ''updated_at'', ''scraped_url''}
             \<union> (\<lambda>p. ''prices.'' @ replace CHR ''_'' CHR ''-'' p) ` set (split CHR '','' ps)
       \<and> (\<forall>p \<in> set (split CHR '','' ps).
            count_list (map fst (projection (station_keys E) :: 'f pydict))
              (''prices.'' @ replace CHR ''_'' CHR ''-'' p) = 1)
       \<and> count_list (map fst (projection (station_keys E) :: 'f pydict)) ''prices'' = 0
       \<and> (\<forall>wh p n. StoreFind wh p n \<in> set (trace (snd (list_stations E w)))
                    \<and> StoreFind wh p n \<notin> set (trace w)
              \<longrightarrow> p = projection (station_keys E))
       \<and> (\<forall>resp w'. list_stations E w = (Inr resp, w') \<longrightarrow>
            (\<exists>wh n docs. find E wh (projection (station_keys E)) n = Inr docs
               \<and> list_all2 (\<lambda>doc r. \<forall>d. distinct (map fst doc) \<and> (''prices'', PDict d) \<in> set doc \<longrightarrow>
                     (\<exists>xs. enrich_prices (PDict d) = Inr (PList xs)
                          \<and> map_of r ''prices'' = Some (PList xs)))
                   docs (stations resp)))"
proof -
  let ?proj = "projection (station_keys E) :: 'f pydict"
  let ?f = "\<lambda>p. ''prices.'' @ replace CHR ''_'' CHR ''-'' p"
  have keys: "fst ` set ?proj
           = {''key'', ''loc'', ''address'', ''updated_at'', ''scraped_url''}
             \<union> ?f ` set (split CHR '','' ps)"
    unfolding projection_keys station_keys_prices[OF assms] by simp
  have cnt: "count_list (map fst ?proj) k = (if k \<in> fst ` set ?proj then 1 else 0)" for k
    using distinct_count_list[OF projection_distinct, of "station_keys E" k] by simp
  have one: "\<forall>p \<in> set (split CHR '','' ps). count_list (map fst ?proj) (?f p) = 1"
    unfolding cnt keys by simp
  have "''prices'' \<notin> ?f ` set (split CHR '','' ps)" by auto
  then have zero: "count_list (map fst ?proj) ''prices'' = 0"
    unfolding cnt keys by simp
  have sent: "p = projection (station_keys E)"
    if "StoreFind wh p n \<in> set (trace (snd (list_stations E w))) \<and> StoreFind wh p n \<notin> set (trace w)"
    for wh p n
    using list_stations_store_query[of wh p n E w] that by blast
  have resp: "\<exists>wh n docs. find E wh (projection (station_keys E)) n = Inr docs
               \<and> list_all2 (\<lambda>doc r. \<forall>d. distinct (map fst doc) \<and> (''prices'', PDict d) \<in> set doc \<longrightarrow>
                     (\<exists>xs. enrich_prices (PDict d) = Inr (PList xs)
                          \<and> map_of r ''prices'' = Some (PList xs)))
                   docs (stations resp)"
    if "list_stations E w = (Inr resp, w')" for resp w'
  proof -
    from list_stations_Inr[OF that] obtain at' wh n docs simple where
      f: "find E wh (projection (station_keys E)) n = Inr docs"
      and m: "map_err (\<lambda>station. simple_station station
                      (station_keys E @ [''prices'', ''distance'']) (transforms E)) docs = Inr simple"
      and c: "(if truthy at' then map_err (\<lambda>station. compute_distance E station at') simple
             else Inr simple) = Inr (stations resp)"
      by blast
    from prices_survive[OF m c] f show ?thesis by blast
  qed
  from keys one zero sent resp show ?thesis by blast
qed

text \<open>
  Claim C7 on the sample deployment, for the request \<^verbatim>\<open>prices=diesel,super_95\<close>.
\<close>

theorem prices_projection_witness:
  "args (with_args [(''prices'', ''diesel,super_95'')]) ''prices'' = Some ''diesel,super_95''
   \<and> ''diesel,super_95'' \<noteq> []
   \<and> (projection (station_keys (with_args [(''prices'', ''diesel,super_95'')])) :: int pydict)
       = [(''key'', PInt 1), (''loc'', PInt 1), (''address'', PInt 1), (''updated_at'', PInt 1),
          (''scraped_url'', PInt 1), (''prices.diesel'', PInt 1), (''prices.super-95'', PInt 1)]
   \<and> count_list (map fst (projection (station_keys
          (with_args [(''prices'', ''diesel,super_95'')])) :: int pydict)) ''prices.super-95'' = 1
   \<and> count_list (map fst (projection (station_keys
          (with_args [(''prices'', ''diesel,super_95'')])) :: int pydict)) ''prices'' = 0
   \<and> fst (list_stations (with_args [(''prices'', ''diesel,super_95'')]) world0)
       = Inr \<lparr>status = ''ok'', stations = [sample_simple], executed_in = 1\<rparr>
   \<and> map_of sample_station ''prices'' = Some (PDict [(''diesel'', PNum 1), (''super-95'', PNum 2)])
   \<and> map_of sample_simple ''prices''
       = Some (PList [PDict [(''type'', PStr ''diesel''), (''price'', PNum 1)],
                      PDict [(''type'', PStr ''super_95''), (''price'', PNum 2)]])"
proof -
  let ?E = "with_args [(''prices'', ''diesel,super_95'')]"
  have a: "args ?E ''prices'' = Some ''diesel,super_95''" by simp
  have b: "''diesel,super_95'' \<noteq> []" by simp
  have t: "''super_95'' \<in> set (split CHR '','' ''diesel,super_95'')"
    unfolding sample_prices_split by simp
  have r: "''prices.'' @ replace CHR ''_'' CHR ''-'' ''super_95'' = ''prices.super-95''"
    by (simp add: replace_def)
  note p = prices_projection[OF a b, of world0]
  from p[THEN conjunct2, THEN conjunct1, rule_format, OF t]
  have one: "count_list (map fst (projection (station_keys ?E) :: int pydict)) ''prices.super-95'' = 1"
    unfolding r .
  from p[THEN conjunct2, THEN conjunct2, THEN conjunct1]
  have zero: "count_list (map fst (projection (station_keys ?E) :: int pydict)) ''prices'' = 0" .
  have pr: "(projection (station_keys ?E) :: int pydict)
       = [(''key'', PInt 1), (''loc'', PInt 1), (''address'', PInt 1), (''updated_at'', PInt 1),
          (''scraped_url'', PInt 1), (''prices.diesel'', PInt 1), (''prices.super-95'', PInt 1)]"
    unfolding sample_prices_keys by (rule sample_prices_projection)
  have run: "fst (list_stations ?E world0)
       = Inr \<lparr>status = ''ok'', stations = [sample_simple], executed_in = 1\<rparr>"
    unfolding sample_prices_run by simp
  have m1: "map_of sample_station ''prices'' = Some (PDict [(''diesel'', PNum 1), (''super-95'', PNum 2)])"
    by (simp add: sample_station_def)
  have m2: "map_of sample_simple ''prices''
       = Some (PList [PDict [(''type'', PStr ''diesel''), (''price'', PNum 1)],
                      PDict [(''type'', PStr ''super_95''), (''price'', PNum 2)]])"
    by (simp add: sample_simple_def)
  from a b pr one zero run m1 m2 show ?thesis by (intro conjI)
qed





text \<open>
  Claim C1 does not hold on the code. The sample geocoder has no result for the address
  \<^verbatim>\<open>nowhere\<close>. \<open>geocode\<close> then \<^emph>\<open>returns\<close> the exception object that line 103 builds, as
  its ordinary result; \<open>list_stations\<close> takes that object for the reference point, since it
  is true, and sends it to the store as the coordinates of the \<^verbatim>\<open>$near\<close> clause. The
  geocoding step raises nothing.
\<close>

theorem geocode_no_results_returns_exception_object:
  "requests_get (with_args [(''near'', ''nowhere'')]) ''nowhere''
     = Inr (PDict [(''results'', PList []), (''status'', PStr ''ZERO_RESULTS'')])
   \<and> geocode (with_args [(''near'', ''nowhere'')]) ''nowhere'' True 86400 world0
     = (Inr (PExc ''Can't get location nowhere.''),
        \<lparr>redis = Map.empty,
         trace = [RedisGet ''address:nowhere'', GeocoderCall ''nowhere'']\<rparr>)
   \<and> reference_point (with_args [(''near'', ''nowhere'')]) world0
     = (Inr (PExc ''Can't get location nowhere.''),
        \<lparr>redis = Map.empty,
         trace = [RedisGet ''address:nowhere'', GeocoderCall ''nowhere'']\<rparr>)
   \<and> trace (snd (list_stations (with_args [(''near'', ''nowhere'')]) world0))
     = [RedisGet ''address:nowhere'', GeocoderCall ''nowhere'',
        StoreFind [(''company'', PStr ''petrol''),
                   (''loc'', near_clause (PExc ''Can't get location nowhere.'') 10000)]
          [(''key'', PInt 1), (''loc'', PInt 1), (''address'', PInt 1), (''updated_at'', PInt 1),
           (''prices'', PInt 1), (''scraped_url'', PInt 1)] 10]"
proof -
  let ?E = "with_args [(''near'', ''nowhere'')]"
  let ?w1 = "\<lparr>redis = Map.empty,
         trace = [RedisGet ''address:nowhere'', GeocoderCall ''nowhere'']\<rparr> :: int world"
  have q: "requests_get ?E ''nowhere''
     = Inr (PDict [(''results'', PList []), (''status'', PStr ''ZERO_RESULTS'')])"
    by (simp add: sample_reply_def)
  have g: "geocode ?E ''nowhere'' True 86400 world0 = (Inr (PExc ''Can't get location nowhere.''), ?w1)"
    by (simp add: geocode_def Let_def redis_get_def sample_raw_location_unknown emit_def world0_def)
  have pa: "parse_at ?E = Inr (PList [])" by (simp add: parse_at_empty)
  have rp: "reference_point ?E world0 = (Inr (PExc ''Can't get location nowhere.''), ?w1)"
    using g pa by (simp add: reference_point_def)
  have sd: "safe_distance ?E = Inr 10000"
    by (simp add: safe_distance_def safe_limit_def int_of_def)
  have bw: "build_where ?E (PExc ''Can't get location nowhere.'')
              = Inr [(''company'', PStr ''petrol''),
                     (''loc'', near_clause (PExc ''Can't get location nowhere.'') 10000)]"
    using sd by (simp add: build_where_truthy)
  have sl: "safe_limit ?E ''LIST_LIMIT'' ''LIST_DEFAULT_COUNT'' ''limit'' = Inr 10"
    by (simp add: with_args_limits)
  have k: "station_keys ?E = [''key'', ''loc'', ''address'', ''updated_at'', ''prices'', ''scraped_url'']"
    by (simp add: with_args_keys)
  from list_stations_query[OF rp bw sl]
  have t: "trace (snd (list_stations ?E world0))
     = [RedisGet ''address:nowhere'', GeocoderCall ''nowhere'',
        StoreFind [(''company'', PStr ''petrol''),
                   (''loc'', near_clause (PExc ''Can't get location nowhere.'') 10000)]
          [(''key'', PInt 1), (''loc'', PInt 1), (''address'', PInt 1), (''updated_at'', PInt 1),
           (''prices'', PInt 1), (''scraped_url'', PInt 1)] 10]"
    by (simp add: k sample_projection)
  from q g rp t show ?thesis by (intro conjI)
qed

end
